theory Spec2Isabelle
  imports Main "HOL-Library.Word"
begin

section \<open>The button module of ESP32Forge/Button (Button.c, Button.h)\<close>

text \<open>
  The module keeps two file-scope variables: the flag \<open>button_module_was_initialized\<close>
  and the array \<open>system_buttons_infos[NUM_OF_BUTTONS]\<close>. Every function of Button.c is
  embedded as a function from the module state to a return code and the new module
  state. The calls the module makes to its collaborators (the GPIO driver, the FreeRTOS
  timer service, the weak symbol \<open>button_CB\<close>) are effects on the outside: the model
  appends each of them to a log kept in the state, and takes what the collaborator
  answers from a record of answers that is an argument of the embedded function.
\<close>

subsection \<open>Types\<close>

text \<open>The enumeration \<open>Button_return\<close> of Button.h, in the order of \<open>BUTTON_RETURNS\<close>.\<close>

datatype Button_return =
    BSP_BUTTON_OK
  | BSP_BUTTON_INIT_ERR
  | BSP_BUTTON_DE_INIT_ERR
  | BSP_BUTTON_INVALID_BUTTONS_CONFIG_ERR
  | BSP_BUTTON_MODULE_WAS_NOT_INIT_ERR
  | BSP_BUTTON_DOES_NOT_EXIST_ERR
  | BSP_BUTTON_WAS_INITIALIZED_ERR
  | BSP_BUTTON_WAS_NOT_INITIALIZED_ERR

text \<open>
  \<open>Button_ID\<close> is an unsigned enumeration (the loops count it up from \<open>0u\<close>);
  \<open>gpio_num_t\<close>, \<open>gpio_pull_mode_t\<close>, \<open>gpio_int_type_t\<close>, \<open>esp_err_t\<close> and
  \<open>Button_state\<close> are C enumerations or \<open>int\<close>, which can hold values outside their
  enumerators: they are integers here.
\<close>

type_synonym Button_ID = nat
type_synonym gpio_num_t = int
type_synonym gpio_pull_mode_t = int
type_synonym gpio_int_type_t = int
type_synonym Button_state = int
type_synonym esp_err_t = int

definition ESP_OK :: esp_err_t where "ESP_OK = 0"

text \<open>The enumerators of \<open>gpio_pull_mode_t\<close> and \<open>gpio_int_type_t\<close> in ESP-IDF.\<close>

definition GPIO_PULLUP_ONLY :: gpio_pull_mode_t where "GPIO_PULLUP_ONLY = 0"
definition GPIO_PULLDOWN_ONLY :: gpio_pull_mode_t where "GPIO_PULLDOWN_ONLY = 1"
definition GPIO_PULLUP_PULLDOWN :: gpio_pull_mode_t where "GPIO_PULLUP_PULLDOWN = 2"
definition GPIO_FLOATING :: gpio_pull_mode_t where "GPIO_FLOATING = 3"
definition GPIO_INTR_DISABLE :: gpio_int_type_t where "GPIO_INTR_DISABLE = 0"

text \<open>
  A FreeRTOS timer handle is \<open>NULL\<close> or points to a timer; all the module ever reads
  from a timer is the name it was created with (\<open>pcTimerGetName\<close>). A timer is modelled
  by the arguments of the \<open>xTimerCreate\<close> that made it: its name and its period in ticks.
  The other arguments are the same for every timer of the module: no auto-reload
  (\<open>pdFALSE\<close>, a one-shot timer), the identifier 0, the callback \<open>timer_CB\<close>.
\<close>

datatype timer = Timer (pcTimerGetName: string) (xTimerGetPeriod: nat)

type_synonym TimerHandle_t = "timer option"

text \<open>The structure \<open>system_button_info\<close>, field by field.\<close>

record system_button_info =
  ID :: Button_ID
  was_initialized :: bool
  GPIO :: gpio_num_t
  pull_mode :: gpio_pull_mode_t
  interruption_type :: gpio_int_type_t
  state :: Button_state
  debounce :: TimerHandle_t
  debounce_timer_expired :: bool
  num_of_presses :: "64 word"

text \<open>One line \<open>BUTTON_CONFIG(BUTTON_ID, BUTTON_GPIO_ID, BUTTON_GPIO_PULL_MODE, INT_TYP,
  BOUNCE_TIME)\<close> of the list \<open>BUTTONS_CONFIGURATIONS\<close>. The first argument is used twice by
  Button.c: as a value, and stringified (\<open>#BUTTON_ID\<close>) as the name of the timer.\<close>

record button_config =
  BUTTON_ID_token :: string
  BUTTON_ID :: Button_ID
  BUTTON_GPIO_ID :: gpio_num_t
  BUTTON_GPIO_PULL_MODE :: gpio_pull_mode_t
  INT_TYP :: gpio_int_type_t
  BOUNCE_TIME :: nat

text \<open>
  The header Button_physical_connection.h is not among the sources. What Button.c takes
  from it is a parameter of the model: the list \<open>BUTTONS\<close> of the names of the
  enumerators of \<open>Button_ID\<close>, the list \<open>BUTTONS_CONFIGURATIONS\<close>, and the two
  enumerators of \<open>Button_state\<close>. What it takes from the platform is a parameter as
  well: \<open>GPIO_IS_VALID_GPIO\<close> of the GPIO driver and \<open>portTICK_PERIOD_MS\<close> of FreeRTOS
  (not 0: the module divides by it, which C leaves undefined for 0 and HOL defines as 0).
\<close>

record platform =
  BUTTONS :: "string list"
  BUTTONS_CONFIGURATIONS :: "button_config list"
  BUTTON_IS_PRESSED :: Button_state
  BUTTON_IS_NOT_PRESSED :: Button_state
  GPIO_IS_VALID_GPIO :: "gpio_num_t \<Rightarrow> bool"
  portTICK_PERIOD_MS :: nat

text \<open>
  Modelled from the spec: the declaration of the enumeration \<open>Button_ID\<close> and of
  \<open>NUM_OF_BUTTONS\<close> is in the missing header Button_physical_connection.h. The spec calls
  the identifiers ``unique, dense, drawn from a closed enumeration known at build time''
  and the table ``a fixed-size mapping from identifier'': the value of an enumerator is
  its position in \<open>BUTTONS\<close>, and \<open>NUM_OF_BUTTONS\<close> is the number of enumerators.
\<close>

definition NUM_OF_BUTTONS :: "platform \<Rightarrow> nat" where
  "NUM_OF_BUTTONS p = length (BUTTONS p)"

text \<open>
  Modelled from the spec: the enumerators of \<open>Button_ID\<close> (missing header
  Button_physical_connection.h) with their values, in the order of \<open>BUTTONS\<close>.
\<close>

definition Button_ID_enum :: "platform \<Rightarrow> (Button_ID \<times> string) list" where
  "Button_ID_enum p = enumerate 0 (BUTTONS p)"

subsection \<open>Collaborators\<close>

text \<open>
  The calls Button.c makes to the outside. \<open>Call_gpio_isr_handler_add pin k\<close> installs
  \<open>generic_button_CB\<close> on \<open>pin\<close> with the argument \<open>&system_buttons_infos[k].ID\<close>.
\<close>

datatype call =
    Call_gpio_install_isr_service
  | Call_gpio_reset_pin gpio_num_t
  | Call_gpio_set_direction_input gpio_num_t
  | Call_gpio_set_pull_mode gpio_num_t gpio_pull_mode_t
  | Call_gpio_set_intr_type gpio_num_t gpio_int_type_t
  | Call_gpio_isr_handler_add gpio_num_t nat
  | Call_xTimerCreate string nat
  | Call_xTimerStartFromISR TimerHandle_t
  | Call_button_CB Button_ID

text \<open>
  What the collaborators answer during one run of a function of the module. For the GPIO
  driver the answer is the value of \<open>ESP_error_check(gpio_...(...))\<close> (Debug.h, which
  declares \<open>ESP_error_check\<close>, is not among the sources); \<open>xTimerCreate_succeeds\<close> tells
  whether the timer service can allocate the timer of that name.
\<close>

record collaborators =
  gpio_install_isr_service :: esp_err_t
  gpio_reset_pin :: "gpio_num_t \<Rightarrow> esp_err_t"
  gpio_set_direction :: "gpio_num_t \<Rightarrow> esp_err_t"
  gpio_set_pull_mode :: "gpio_num_t \<Rightarrow> gpio_pull_mode_t \<Rightarrow> esp_err_t"
  gpio_set_intr_type :: "gpio_num_t \<Rightarrow> gpio_int_type_t \<Rightarrow> esp_err_t"
  gpio_isr_handler_add :: "gpio_num_t \<Rightarrow> nat \<Rightarrow> esp_err_t"
  xTimerCreate_succeeds :: "string \<Rightarrow> bool"
  xTimerIsTimerActive :: "TimerHandle_t \<Rightarrow> bool"
  gpio_get_level :: "gpio_num_t \<Rightarrow> int"

subsection \<open>Module state\<close>

record module_state =
  button_module_was_initialized :: bool
  system_buttons_infos :: "system_button_info list"
  calls :: "call list"

text \<open>The element \<open>{0u}\<close> with which C fills what an initializer leaves out.\<close>

definition zero_info :: system_button_info where
  "zero_info = \<lparr>ID = 0, was_initialized = False, GPIO = 0, pull_mode = 0,
     interruption_type = 0, state = 0, debounce = None, debounce_timer_expired = False,
     num_of_presses = 0\<rparr>"

text \<open>The initializer that the macro \<open>BUTTON_CONFIG\<close> expands to in the definition of
  \<open>system_buttons_infos\<close>.\<close>

definition static_info :: "platform \<Rightarrow> button_config \<Rightarrow> system_button_info" where
  "static_info p c = \<lparr>ID = BUTTON_ID c, was_initialized = False, GPIO = BUTTON_GPIO_ID c,
     pull_mode = BUTTON_GPIO_PULL_MODE c, interruption_type = INT_TYP c,
     state = BUTTON_IS_NOT_PRESSED p, debounce = None, debounce_timer_expired = False,
     num_of_presses = 0\<rparr>"

text \<open>
  The state at program start. The array has \<open>NUM_OF_BUTTONS\<close> elements whatever the
  list \<open>BUTTONS_CONFIGURATIONS\<close> holds: elements without an initializer are zero, and
  initializers beyond the last element are a constraint violation in C (gcc warns and
  drops them from the array; their \<open>case\<close> labels stay in the second loop of
  \<open>check_configurations_sort_and_init\<close>).
\<close>

definition initial_state :: "platform \<Rightarrow> module_state" where
  "initial_state p =
     \<lparr>button_module_was_initialized = False,
      system_buttons_infos =
        take (NUM_OF_BUTTONS p) (map (static_info p) (BUTTONS_CONFIGURATIONS p)) @
        replicate (NUM_OF_BUTTONS p - length (BUTTONS_CONFIGURATIONS p)) zero_info,
      calls = []\<rparr>"

subsection \<open>check_button_ID\<close>

text \<open>The \<open>switch\<close> has one \<open>case\<close> per enumerator of \<open>BUTTONS\<close> and a \<open>default\<close>.\<close>

definition check_button_ID :: "platform \<Rightarrow> Button_ID \<Rightarrow> bool" where
  "check_button_ID p i = (i \<in> set (map fst (Button_ID_enum p)))"

subsection \<open>check_configurations_sort_and_init\<close>

text \<open>
  The first loop, over the indices still to visit: it checks the element \<open>i\<close> of the
  global array and files it in the local array \<open>buttons_info\<close> at the position of its
  identifier. \<open>None\<close> is the \<open>return false\<close> of the loop.
\<close>

fun check_and_sort ::
  "platform \<Rightarrow> system_button_info list \<Rightarrow> nat list \<Rightarrow> system_button_info list
     \<Rightarrow> system_button_info list option" where
  "check_and_sort p infos [] buttons_info = Some buttons_info"
| "check_and_sort p infos (i # is) buttons_info =
     (if \<not> check_button_ID p (ID (infos ! i)) then None
      else if \<not> GPIO_IS_VALID_GPIO p (GPIO (infos ! i)) then None
      else if pull_mode (infos ! i) \<noteq> GPIO_PULLUP_ONLY
            \<and> pull_mode (infos ! i) \<noteq> GPIO_PULLDOWN_ONLY
            \<and> pull_mode (infos ! i) \<noteq> GPIO_PULLUP_PULLDOWN
            \<and> pull_mode (infos ! i) \<noteq> GPIO_FLOATING then None
      else check_and_sort p infos is (buttons_info[ID (infos ! i) := infos ! i]))"

text \<open>
  The second loop: it copies element \<open>i\<close> of \<open>buttons_info\<close> into the global array, then
  the \<open>switch(i)\<close>, with one \<open>case\<close> per line of \<open>BUTTONS_CONFIGURATIONS\<close>, creates the
  timer of that line and stores the handle; the \<open>default\<close> and a \<open>NULL\<close> handle return
  false, leaving the global array as written so far.
\<close>

fun copy_and_create_timers ::
  "platform \<Rightarrow> collaborators \<Rightarrow> system_button_info list \<Rightarrow> nat list \<Rightarrow> module_state
     \<Rightarrow> bool \<times> module_state" where
  "copy_and_create_timers p h buttons_info [] s = (True, s)"
| "copy_and_create_timers p h buttons_info (i # is) s =
     (let s1 = s\<lparr>system_buttons_infos := (system_buttons_infos s)[i := buttons_info ! i]\<rparr>
      in case find (\<lambda>c. BUTTON_ID c = i) (BUTTONS_CONFIGURATIONS p) of
           None \<Rightarrow> (False, s1)
         | Some c \<Rightarrow>
             (let ticks = BOUNCE_TIME c div portTICK_PERIOD_MS p;
                  handle = (if xTimerCreate_succeeds h (BUTTON_ID_token c)
                            then Some (Timer (BUTTON_ID_token c) ticks) else None);
                  s2 = s1\<lparr>system_buttons_infos :=
                             (system_buttons_infos s1)
                               [i := (system_buttons_infos s1 ! i)\<lparr>debounce := handle\<rparr>],
                          calls := calls s1 @ [Call_xTimerCreate (BUTTON_ID_token c) ticks]\<rparr>
              in if handle = None then (False, s2)
                 else copy_and_create_timers p h buttons_info is s2))"

definition check_configurations_sort_and_init ::
  "platform \<Rightarrow> collaborators \<Rightarrow> module_state \<Rightarrow> bool \<times> module_state" where
  "check_configurations_sort_and_init p h s =
     (case check_and_sort p (system_buttons_infos s) [0..<NUM_OF_BUTTONS p]
             (replicate (NUM_OF_BUTTONS p) zero_info) of
        None \<Rightarrow> (False, s)
      | Some buttons_info \<Rightarrow>
          copy_and_create_timers p h buttons_info [0..<NUM_OF_BUTTONS p] s)"

subsection \<open>The functions of Button.h\<close>

definition init_BSP_button_module ::
  "platform \<Rightarrow> collaborators \<Rightarrow> module_state \<Rightarrow> Button_return \<times> module_state" where
  "init_BSP_button_module p h s =
     (if \<not> button_module_was_initialized s then
        (case check_configurations_sort_and_init p h s of
           (False, s1) \<Rightarrow> (BSP_BUTTON_INVALID_BUTTONS_CONFIG_ERR, s1)
         | (True, s1) \<Rightarrow>
             (let s2 = s1\<lparr>calls := calls s1 @ [Call_gpio_install_isr_service]\<rparr>
              in if gpio_install_isr_service h \<noteq> ESP_OK then (BSP_BUTTON_INIT_ERR, s2)
                 else (BSP_BUTTON_OK, s2\<lparr>button_module_was_initialized := True\<rparr>)))
      else (BSP_BUTTON_OK, s))"

definition init_button ::
  "platform \<Rightarrow> collaborators \<Rightarrow> Button_ID \<Rightarrow> module_state \<Rightarrow> Button_return \<times> module_state"
  where
  "init_button p h i s =
     (if \<not> button_module_was_initialized s then (BSP_BUTTON_MODULE_WAS_NOT_INIT_ERR, s)
      else if \<not> check_button_ID p i then (BSP_BUTTON_DOES_NOT_EXIST_ERR, s)
      else if was_initialized (system_buttons_infos s ! i)
        then (BSP_BUTTON_WAS_INITIALIZED_ERR, s)
      else
        (let b = system_buttons_infos s ! i;
             s1 = s\<lparr>calls := calls s @ [Call_gpio_reset_pin (GPIO b)]\<rparr>
         in if gpio_reset_pin h (GPIO b) \<noteq> ESP_OK then (BSP_BUTTON_INIT_ERR, s1)
         else
           (let s2 = s1\<lparr>calls := calls s1 @ [Call_gpio_set_direction_input (GPIO b)]\<rparr>
            in if gpio_set_direction h (GPIO b) \<noteq> ESP_OK then (BSP_BUTTON_INIT_ERR, s2)
            else
              (let s3 = s2\<lparr>calls := calls s2
                             @ [Call_gpio_set_pull_mode (GPIO b) (pull_mode b)]\<rparr>
               in if gpio_set_pull_mode h (GPIO b) (pull_mode b) \<noteq> ESP_OK
                  then (BSP_BUTTON_INIT_ERR, s3)
               else
                 (let s4 = s3\<lparr>calls := calls s3
                                @ [Call_gpio_set_intr_type (GPIO b) (interruption_type b)]\<rparr>
                  in if gpio_set_intr_type h (GPIO b) (interruption_type b) \<noteq> ESP_OK
                     then (BSP_BUTTON_INIT_ERR, s4)
                  else
                    (let s5 = s4\<lparr>calls := calls s4
                                   @ [Call_gpio_isr_handler_add (GPIO b) i]\<rparr>
                     in if gpio_isr_handler_add h (GPIO b) i \<noteq> ESP_OK
                        then (BSP_BUTTON_INIT_ERR, s5)
                     else
                       (BSP_BUTTON_OK,
                        s5\<lparr>system_buttons_infos :=
                             (system_buttons_infos s5)
                               [i := (system_buttons_infos s5 ! i)
                                  \<lparr>was_initialized := True,
                                   debounce_timer_expired := True\<rparr>]\<rparr>)))))))"

definition de_init_button ::
  "platform \<Rightarrow> collaborators \<Rightarrow> Button_ID \<Rightarrow> module_state \<Rightarrow> Button_return \<times> module_state"
  where
  "de_init_button p h i s =
     (if \<not> button_module_was_initialized s then (BSP_BUTTON_MODULE_WAS_NOT_INIT_ERR, s)
      else if \<not> check_button_ID p i then (BSP_BUTTON_DOES_NOT_EXIST_ERR, s)
      else if \<not> was_initialized (system_buttons_infos s ! i)
        then (BSP_BUTTON_WAS_NOT_INITIALIZED_ERR, s)
      else
        (let b = system_buttons_infos s ! i;
             s1 = s\<lparr>calls := calls s @ [Call_gpio_reset_pin (GPIO b)]\<rparr>
         in if gpio_reset_pin h (GPIO b) \<noteq> ESP_OK then (BSP_BUTTON_DE_INIT_ERR, s1)
         else
           (let s2 = s1\<lparr>calls := calls s1
                          @ [Call_gpio_set_intr_type (GPIO b) GPIO_INTR_DISABLE]\<rparr>
            in if gpio_set_intr_type h (GPIO b) GPIO_INTR_DISABLE \<noteq> ESP_OK
               then (BSP_BUTTON_DE_INIT_ERR, s2)
               else (BSP_BUTTON_OK, s2))))"

text \<open>
  The two accessors write through a pointer. The model takes the value the pointed-to
  variable holds before the call and returns the value it holds afterwards, so that a
  call that does not write returns the value it was given.
\<close>

definition read_button_state ::
  "platform \<Rightarrow> Button_ID \<Rightarrow> Button_state \<Rightarrow> module_state \<Rightarrow> Button_return \<times> Button_state"
  where
  "read_button_state p i out s =
     (if \<not> button_module_was_initialized s then (BSP_BUTTON_MODULE_WAS_NOT_INIT_ERR, out)
      else if \<not> check_button_ID p i then (BSP_BUTTON_DOES_NOT_EXIST_ERR, out)
      else if \<not> was_initialized (system_buttons_infos s ! i)
        then (BSP_BUTTON_WAS_NOT_INITIALIZED_ERR, out)
      else (BSP_BUTTON_OK, state (system_buttons_infos s ! i)))"

definition get_num_of_presses ::
  "platform \<Rightarrow> Button_ID \<Rightarrow> 64 word \<Rightarrow> module_state \<Rightarrow> Button_return \<times> 64 word" where
  "get_num_of_presses p i out s =
     (if \<not> button_module_was_initialized s then (BSP_BUTTON_MODULE_WAS_NOT_INIT_ERR, out)
      else if \<not> check_button_ID p i then (BSP_BUTTON_DOES_NOT_EXIST_ERR, out)
      else (BSP_BUTTON_OK, num_of_presses (system_buttons_infos s ! i)))"

subsection \<open>The two handlers\<close>

text \<open>
  \<open>generic_button_CB\<close> gets the pointer \<open>&system_buttons_infos[k].ID\<close> that \<open>init_button\<close>
  gave to \<open>gpio_isr_handler_add\<close>; the model gets \<open>k\<close> and reads the identifier there.
\<close>

definition generic_button_CB :: "collaborators \<Rightarrow> nat \<Rightarrow> module_state \<Rightarrow> module_state" where
  "generic_button_CB h k s =
     (let i = ID (system_buttons_infos s ! k);
          b = system_buttons_infos s ! i
      in if \<not> xTimerIsTimerActive h (debounce b) \<and> debounce_timer_expired b then
           s\<lparr>system_buttons_infos :=
                (system_buttons_infos s)
                  [i := b\<lparr>debounce_timer_expired := False,
                          state := gpio_get_level h (GPIO b),
                          num_of_presses := num_of_presses b + 1\<rparr>],
             calls := calls s @ [Call_button_CB i, Call_xTimerStartFromISR (debounce b)]\<rparr>
         else s)"

text \<open>
  The chain of \<open>if(strcmp(timer_name, #enumerate) == 0) ID = enumerate;\<close> that the list
  \<open>BUTTONS\<close> expands to in \<open>timer_CB\<close>, started from \<open>ID = 0\<close>.
\<close>

definition timer_button_ID :: "platform \<Rightarrow> string \<Rightarrow> Button_ID" where
  "timer_button_ID p timer_name =
     foldl (\<lambda>i (enumerate_value, enumerate_name).
              if timer_name = enumerate_name then enumerate_value else i)
       0 (Button_ID_enum p)"

definition timer_CB :: "platform \<Rightarrow> collaborators \<Rightarrow> timer \<Rightarrow> module_state \<Rightarrow> module_state"
  where
  "timer_CB p h timer_handler s =
     (let i = timer_button_ID p (pcTimerGetName timer_handler);
          b = system_buttons_infos s ! i
      in if gpio_get_level h (GPIO b) = BUTTON_IS_PRESSED p then
           s\<lparr>calls := calls s @ [Call_xTimerStartFromISR (debounce b)]\<rparr>
         else
           s\<lparr>system_buttons_infos :=
                (system_buttons_infos s)[i := b\<lparr>debounce_timer_expired := True\<rparr>]\<rparr>)"

subsection \<open>Sequences of calls\<close>

text \<open>
  A run of \<open>generic_button_CB\<close> for each of a sequence of edge interrupts on the pin
  whose handler argument is \<open>&system_buttons_infos[k].ID\<close>; each interrupt comes with
  what the collaborators answer at that moment.
\<close>

fun edge_interrupts :: "collaborators list \<Rightarrow> nat \<Rightarrow> module_state \<Rightarrow> module_state" where
  "edge_interrupts [] k s = s"
| "edge_interrupts (h # hs) k s = edge_interrupts hs k (generic_button_CB h k s)"

text \<open>
  What can happen to the module: a call of one of the five functions of Button.h, an
  edge interrupt, the expiry of a timer. \<open>step\<close> is the effect on the module state, and
  \<open>run\<close> the effect of a history.
\<close>

datatype action =
    Do_init_BSP_button_module collaborators
  | Do_init_button collaborators Button_ID
  | Do_de_init_button collaborators Button_ID
  | Do_read_button_state Button_ID
  | Do_get_num_of_presses Button_ID
  | Do_generic_button_CB collaborators nat
  | Do_timer_CB collaborators timer

fun step :: "platform \<Rightarrow> action \<Rightarrow> module_state \<Rightarrow> module_state" where
  "step p (Do_init_BSP_button_module h) s = snd (init_BSP_button_module p h s)"
| "step p (Do_init_button h i) s = snd (init_button p h i s)"
| "step p (Do_de_init_button h i) s = snd (de_init_button p h i s)"
| "step p (Do_read_button_state i) s = s"
| "step p (Do_get_num_of_presses i) s = s"
| "step p (Do_generic_button_CB h k) s = generic_button_CB h k s"
| "step p (Do_timer_CB h t) s = timer_CB p h t s"

fun run :: "platform \<Rightarrow> action list \<Rightarrow> module_state \<Rightarrow> module_state" where
  "run p [] s = s"
| "run p (a # as) s = run p as (step p a s)"

text \<open>
  An action that neither registers button \<open>i\<close> nor is an edge interrupt of button \<open>i\<close>.
  The driver runs \<open>generic_button_CB\<close> only with a pointer that \<open>init_button\<close> gave it,
  which points into the array: the edge interrupts of a history are those of buttons
  \<open>k < NUM_OF_BUTTONS\<close>.
\<close>

fun leaves_unregistered :: "platform \<Rightarrow> Button_ID \<Rightarrow> action \<Rightarrow> bool" where
  "leaves_unregistered p i (Do_init_button h j) = (j \<noteq> i)"
| "leaves_unregistered p i (Do_generic_button_CB h k) = (k < NUM_OF_BUTTONS p \<and> k \<noteq> i)"
| "leaves_unregistered p i a = True"

subsection \<open>What the validation of the table checks\<close>

text \<open>The three checks of the first loop of \<open>check_configurations_sort_and_init\<close>, on
  an element of the array and on a line of \<open>BUTTONS_CONFIGURATIONS\<close>.\<close>

definition valid_button_info :: "platform \<Rightarrow> system_button_info \<Rightarrow> bool" where
  "valid_button_info p b =
     (check_button_ID p (ID b) \<and> GPIO_IS_VALID_GPIO p (GPIO b)
      \<and> (pull_mode b = GPIO_PULLUP_ONLY \<or> pull_mode b = GPIO_PULLDOWN_ONLY
         \<or> pull_mode b = GPIO_PULLUP_PULLDOWN \<or> pull_mode b = GPIO_FLOATING))"

definition valid_button_config :: "platform \<Rightarrow> button_config \<Rightarrow> bool" where
  "valid_button_config p c = valid_button_info p (static_info p c)"

text \<open>The timer that the second loop creates for a line of \<open>BUTTONS_CONFIGURATIONS\<close>.\<close>

definition debounce_timer :: "platform \<Rightarrow> button_config \<Rightarrow> timer" where
  "debounce_timer p c = Timer (BUTTON_ID_token c) (BOUNCE_TIME c div portTICK_PERIOD_MS p)"

subsection \<open>A board with two buttons\<close>

text \<open>
  A concrete platform on which the theorems below are instantiated: two buttons, declared
  in \<open>BUTTONS_CONFIGURATIONS\<close> in the reverse order of their identifiers, the pins 0 to 39
  of an ESP32, a tick of 10 ms.
\<close>

definition two_buttons :: platform where
  "two_buttons =
     \<lparr>BUTTONS = [''BUTTON_A'', ''BUTTON_B''],
      BUTTONS_CONFIGURATIONS =
        [\<lparr>BUTTON_ID_token = ''BUTTON_B'', BUTTON_ID = 1, BUTTON_GPIO_ID = 5,
           BUTTON_GPIO_PULL_MODE = GPIO_PULLUP_ONLY, INT_TYP = 1, BOUNCE_TIME = 50\<rparr>,
         \<lparr>BUTTON_ID_token = ''BUTTON_A'', BUTTON_ID = 0, BUTTON_GPIO_ID = 4,
           BUTTON_GPIO_PULL_MODE = GPIO_PULLDOWN_ONLY, INT_TYP = 1, BOUNCE_TIME = 50\<rparr>],
      BUTTON_IS_PRESSED = 1, BUTTON_IS_NOT_PRESSED = 0,
      GPIO_IS_VALID_GPIO = (\<lambda>g. 0 \<le> g \<and> g < 40),
      portTICK_PERIOD_MS = 10\<rparr>"

text \<open>Collaborators that never fail, with no timer running; the pins read 1, or 0.\<close>

definition level_high :: collaborators where
  "level_high =
     \<lparr>gpio_install_isr_service = ESP_OK, gpio_reset_pin = (\<lambda>_. ESP_OK),
      gpio_set_direction = (\<lambda>_. ESP_OK), gpio_set_pull_mode = (\<lambda>_ _. ESP_OK),
      gpio_set_intr_type = (\<lambda>_ _. ESP_OK), gpio_isr_handler_add = (\<lambda>_ _. ESP_OK),
      xTimerCreate_succeeds = (\<lambda>_. True), xTimerIsTimerActive = (\<lambda>_. False),
      gpio_get_level = (\<lambda>_. 1)\<rparr>"

definition level_low :: collaborators where
  "level_low = level_high\<lparr>gpio_get_level := (\<lambda>_. 0)\<rparr>"

text \<open>The states of the board after \<open>init_BSP_button_module\<close>, then after
  \<open>init_button(BUTTON_A)\<close>, then after a first edge interrupt of button A.\<close>

definition module_ready :: module_state where
  "module_ready = snd (init_BSP_button_module two_buttons level_high (initial_state two_buttons))"

definition button_A_registered :: module_state where
  "button_A_registered = snd (init_button two_buttons level_high 0 module_ready)"

definition button_A_pressed :: module_state where
  "button_A_pressed = generic_button_CB level_high 0 button_A_registered"

text \<open>Then the timer of button A expires while the pin reads 0.\<close>

definition button_A_released :: module_state where
  "button_A_released = timer_CB two_buttons level_low (Timer ''BUTTON_A'' 5) button_A_pressed"

text \<open>
  The timer service cannot allocate the timer of button A (\<open>xTimerCreate\<close> returns
  \<open>NULL\<close>); the state of the board after a call of \<open>init_BSP_button_module\<close> at
  program start that meets this, and after a second call when the timer service has
  recovered.
\<close>

definition no_timer_for_button_A :: collaborators where
  "no_timer_for_button_A = level_high\<lparr>xTimerCreate_succeeds := (\<lambda>name. name \<noteq> ''BUTTON_A'')\<rparr>"

definition module_after_failed_init :: module_state where
  "module_after_failed_init =
     snd (init_BSP_button_module two_buttons no_timer_for_button_A (initial_state two_buttons))"

definition module_after_retry :: module_state where
  "module_after_retry =
     snd (init_BSP_button_module two_buttons level_high module_after_failed_init)"

subsection \<open>An invariant of the table\<close>

text \<open>
  Every element of the table carries the identifier of its position, and button \<open>i\<close> is
  as the program start left it: not registered, never pressed.
\<close>

definition unregistered_in :: "Button_ID \<Rightarrow> system_button_info list \<Rightarrow> bool" where
  "unregistered_in i infos \<longleftrightarrow>
     (\<forall>k<length infos. ID (infos ! k) = k)
     \<and> \<not> was_initialized (infos ! i) \<and> num_of_presses (infos ! i) = 0"

section \<open>Properties\<close>

subsection \<open>Identifiers and timer names\<close>

lemma check_button_ID_iff: "check_button_ID p i \<longleftrightarrow> i < NUM_OF_BUTTONS p"
  by (simp add: check_button_ID_def Button_ID_enum_def NUM_OF_BUTTONS_def)

lemma strcmp_chain_no_match:
  "tn \<notin> set xs \<Longrightarrow>
   foldl (\<lambda>i (v, n). if tn = n then v else i) acc (enumerate m xs) = acc"
  by (induction xs arbitrary: m acc) auto

lemma strcmp_chain_match:
  "distinct xs \<Longrightarrow> k < length xs \<Longrightarrow> xs ! k = tn \<Longrightarrow>
   foldl (\<lambda>i (v, n). if tn = n then v else i) acc (enumerate m xs) = m + k"
proof (induction xs arbitrary: m acc k)
  case Nil
  then show ?case by simp
next
  case (Cons x xs)
  show ?case
  proof (cases k)
    case 0
    with Cons.prems have "tn = x" "tn \<notin> set xs" by auto
    then show ?thesis using 0 by (simp add: strcmp_chain_no_match)
  next
    case (Suc j)
    with Cons.prems have "tn \<noteq> x" "distinct xs" "j < length xs" "xs ! j = tn" by auto
    then show ?thesis
      using Suc Cons.IH [where k = j and m = "Suc m" and acc = acc] by simp
  qed
qed

lemma timer_button_ID_no_match:
  "tn \<notin> set (BUTTONS p) \<Longrightarrow> timer_button_ID p tn = 0"
  by (simp add: timer_button_ID_def Button_ID_enum_def strcmp_chain_no_match)

lemma timer_button_ID_match:
  "distinct (BUTTONS p) \<Longrightarrow> k < NUM_OF_BUTTONS p \<Longrightarrow> timer_button_ID p (BUTTONS p ! k) = k"
  using strcmp_chain_match [of "BUTTONS p" k "BUTTONS p ! k" 0 0]
  by (simp add: timer_button_ID_def Button_ID_enum_def NUM_OF_BUTTONS_def)

subsection \<open>The module flag\<close>

lemma run_append: "run p (xs @ ys) s = run p ys (run p xs s)"
  by (induction xs arbitrary: s) simp_all

lemma copy_and_create_timers_flag:
  "button_module_was_initialized (snd (copy_and_create_timers p h bi is s))
     = button_module_was_initialized s"
  by (induction "is" arbitrary: s) (simp_all add: Let_def split: option.splits)

lemma check_configurations_flag:
  "button_module_was_initialized (snd (check_configurations_sort_and_init p h s))
     = button_module_was_initialized s"
  by (simp add: check_configurations_sort_and_init_def copy_and_create_timers_flag
      split: option.splits)

lemma init_BSP_flag:
  "button_module_was_initialized (snd (init_BSP_button_module p h s))
     = (button_module_was_initialized s \<or> fst (init_BSP_button_module p h s) = BSP_BUTTON_OK)"
proof (cases "check_configurations_sort_and_init p h s")
  case (Pair ok s1)
  with check_configurations_flag [of p h s]
  have "button_module_was_initialized s1 = button_module_was_initialized s" by simp
  with Pair show ?thesis
    by (cases ok) (simp_all add: init_BSP_button_module_def Let_def)
qed

lemma init_BSP_noop:
  "button_module_was_initialized s \<Longrightarrow> init_BSP_button_module p h s = (BSP_BUTTON_OK, s)"
  by (simp add: init_BSP_button_module_def)

lemma init_button_flag:
  "button_module_was_initialized (snd (init_button p h i s)) = button_module_was_initialized s"
  by (simp add: init_button_def Let_def)

lemma de_init_button_flag:
  "button_module_was_initialized (snd (de_init_button p h i s))
     = button_module_was_initialized s"
  by (simp add: de_init_button_def Let_def)

lemma generic_button_CB_flag:
  "button_module_was_initialized (generic_button_CB h k s) = button_module_was_initialized s"
  by (simp add: generic_button_CB_def Let_def)

lemma timer_CB_flag:
  "button_module_was_initialized (timer_CB p h t s) = button_module_was_initialized s"
  by (simp add: timer_CB_def Let_def)

lemma step_keeps_flag:
  "button_module_was_initialized s \<Longrightarrow> button_module_was_initialized (step p a s)"
  by (cases a)
    (simp_all add: init_BSP_flag init_button_flag de_init_button_flag
      generic_button_CB_flag timer_CB_flag)

lemma run_keeps_flag:
  "button_module_was_initialized s \<Longrightarrow> button_module_was_initialized (run p as s)"
  by (induction as arbitrary: s) (simp_all add: step_keeps_flag)

lemma step_sets_flag:
  assumes "\<not> button_module_was_initialized s"
    and "button_module_was_initialized (step p a s)"
  shows "\<exists>h. a = Do_init_BSP_button_module h
           \<and> fst (init_BSP_button_module p h s) = BSP_BUTTON_OK"
  using assms
  by (cases a)
    (simp_all add: init_BSP_flag init_button_flag de_init_button_flag
      generic_button_CB_flag timer_CB_flag)

lemma flag_needs_successful_init:
  assumes "\<not> button_module_was_initialized s"
    and "button_module_was_initialized (run p as s)"
  shows "\<exists>pre h post. as = pre @ Do_init_BSP_button_module h # post
           \<and> fst (init_BSP_button_module p h (run p pre s)) = BSP_BUTTON_OK"
  using assms
proof (induction as rule: rev_induct)
  case Nil
  then show ?case by simp
next
  case (snoc a as)
  show ?case
  proof (cases "button_module_was_initialized (run p as s)")
    case True
    with snoc obtain pre h post where
      "as = pre @ Do_init_BSP_button_module h # post"
      "fst (init_BSP_button_module p h (run p pre s)) = BSP_BUTTON_OK"
      by blast
    then have "as @ [a] = pre @ Do_init_BSP_button_module h # (post @ [a])
        \<and> fst (init_BSP_button_module p h (run p pre s)) = BSP_BUTTON_OK"
      by simp
    then show ?thesis by blast
  next
    case False
    from snoc.prems(2) have "button_module_was_initialized (step p a (run p as s))"
      by (simp add: run_append)
    with False obtain h where "a = Do_init_BSP_button_module h"
      "fst (init_BSP_button_module p h (run p as s)) = BSP_BUTTON_OK"
      using step_sets_flag by blast
    then have "as @ [a] = as @ Do_init_BSP_button_module h # []
        \<and> fst (init_BSP_button_module p h (run p as s)) = BSP_BUTTON_OK"
      by simp
    then show ?thesis by blast
  qed
qed

subsection \<open>init_button on a button that is not registered\<close>

lemma init_button_fresh:
  assumes "button_module_was_initialized s" and "check_button_ID p i"
    and "\<not> was_initialized (system_buttons_infos s ! i)"
    and "fst (init_button p h i s) \<noteq> BSP_BUTTON_INIT_ERR"
  shows "init_button p h i s =
     (BSP_BUTTON_OK,
      s\<lparr>system_buttons_infos :=
           (system_buttons_infos s)
             [i := (system_buttons_infos s ! i)
                \<lparr>was_initialized := True, debounce_timer_expired := True\<rparr>],
         calls := calls s @
           [Call_gpio_reset_pin (GPIO (system_buttons_infos s ! i)),
            Call_gpio_set_direction_input (GPIO (system_buttons_infos s ! i)),
            Call_gpio_set_pull_mode (GPIO (system_buttons_infos s ! i))
              (pull_mode (system_buttons_infos s ! i)),
            Call_gpio_set_intr_type (GPIO (system_buttons_infos s ! i))
              (interruption_type (system_buttons_infos s ! i)),
            Call_gpio_isr_handler_add (GPIO (system_buttons_infos s ! i)) i]\<rparr>)"
proof -
  let ?b = "system_buttons_infos s ! i"
  have 1: "gpio_reset_pin h (GPIO ?b) = ESP_OK"
    using assms by (rule_tac ccontr) (simp add: init_button_def Let_def)
  have 2: "gpio_set_direction h (GPIO ?b) = ESP_OK"
    using assms 1 by (rule_tac ccontr) (simp add: init_button_def Let_def)
  have 3: "gpio_set_pull_mode h (GPIO ?b) (pull_mode ?b) = ESP_OK"
    using assms 1 2 by (rule_tac ccontr) (simp add: init_button_def Let_def)
  have 4: "gpio_set_intr_type h (GPIO ?b) (interruption_type ?b) = ESP_OK"
    using assms 1 2 3 by (rule_tac ccontr) (simp add: init_button_def Let_def)
  have 5: "gpio_isr_handler_add h (GPIO ?b) i = ESP_OK"
    using assms 1 2 3 4 by (rule_tac ccontr) (simp add: init_button_def Let_def)
  show ?thesis
    using assms(1-3) 1 2 3 4 5 by (simp add: init_button_def Let_def)
qed

subsection \<open>Edge interrupts\<close>

lemma ignored_edge:
  "\<not> debounce_timer_expired (system_buttons_infos s ! ID (system_buttons_infos s ! k))
   \<Longrightarrow> generic_button_CB h k s = s"
  by (simp add: generic_button_CB_def Let_def)

lemma ignored_edges:
  "\<not> debounce_timer_expired (system_buttons_infos s ! ID (system_buttons_infos s ! k))
   \<Longrightarrow> edge_interrupts hs k s = s"
  by (induction hs) (simp_all add: ignored_edge)

lemma accepted_edge:
  assumes "k < length (system_buttons_infos s)" and "ID (system_buttons_infos s ! k) = k"
    and "debounce_timer_expired (system_buttons_infos s ! k)"
    and "\<not> xTimerIsTimerActive h (debounce (system_buttons_infos s ! k))"
  shows "generic_button_CB h k s =
     s\<lparr>system_buttons_infos :=
         (system_buttons_infos s)
           [k := (system_buttons_infos s ! k)
              \<lparr>debounce_timer_expired := False,
               state := gpio_get_level h (GPIO (system_buttons_infos s ! k)),
               num_of_presses := num_of_presses (system_buttons_infos s ! k) + 1\<rparr>],
        calls := calls s @ [Call_button_CB k,
          Call_xTimerStartFromISR (debounce (system_buttons_infos s ! k))]\<rparr>"
  using assms by (simp add: generic_button_CB_def Let_def)

subsection \<open>Edge interrupts inside one debounce window\<close>

text \<open>
  Claim C3. A button whose handler argument points at its own element \<open>k\<close> is quiescent:
  its flag \<open>debounce_timer_expired\<close> is set and its timer is not active. Then of a sequence
  of \<open>N \<ge> 1\<close> edge interrupts on its pin, with no expiry of the timer in between, only
  the first changes the state: whatever the collaborators answer at the later interrupts,
  the state after all of them is the state after the first. The press counter has
  increased by exactly 1 (it is a \<open>uint64_t\<close>: the increment is modulo \<open>2 ^ 64\<close>),
  \<open>button_CB\<close> has been called exactly once more, and the button is in its debounce
  window.
\<close>

theorem one_press_per_debounce_window:
  assumes "k < length (system_buttons_infos s)" and "ID (system_buttons_infos s ! k) = k"
    and "debounce_timer_expired (system_buttons_infos s ! k)"
    and "\<not> xTimerIsTimerActive h (debounce (system_buttons_infos s ! k))"
  shows "edge_interrupts (h # hs) k s = generic_button_CB h k s
       \<and> num_of_presses (system_buttons_infos (edge_interrupts (h # hs) k s) ! k)
           = num_of_presses (system_buttons_infos s ! k) + 1
       \<and> unat (num_of_presses (system_buttons_infos (edge_interrupts (h # hs) k s) ! k))
           = (unat (num_of_presses (system_buttons_infos s ! k)) + 1) mod 2 ^ 64
       \<and> count_list (calls (edge_interrupts (h # hs) k s)) (Call_button_CB k)
           = count_list (calls s) (Call_button_CB k) + 1
       \<and> \<not> debounce_timer_expired (system_buttons_infos (edge_interrupts (h # hs) k s) ! k)"
proof -
  let ?s1 = "generic_button_CB h k s"
  note eq = accepted_edge [OF assms]
  have k1: "ID (system_buttons_infos ?s1 ! k) = k"
    and d1: "\<not> debounce_timer_expired (system_buttons_infos ?s1 ! k)"
    and n1: "num_of_presses (system_buttons_infos ?s1 ! k)
               = num_of_presses (system_buttons_infos s ! k) + 1"
    using assms(1,2) by (simp_all add: eq)
  have c1: "count_list (calls ?s1) (Call_button_CB k)
              = count_list (calls s) (Call_button_CB k) + 1"
    by (simp add: eq)
  have rest: "edge_interrupts hs k ?s1 = ?s1"
    using k1 d1 by (simp add: ignored_edges)
  show ?thesis
    using n1 c1 d1 by (simp add: rest unat_word_ariths)
qed

theorem one_press_per_debounce_window_witness:
  "0 < length (system_buttons_infos button_A_registered)
   \<and> ID (system_buttons_infos button_A_registered ! 0) = 0
   \<and> debounce_timer_expired (system_buttons_infos button_A_registered ! 0)
   \<and> \<not> xTimerIsTimerActive level_high (debounce (system_buttons_infos button_A_registered ! 0))
   \<and> edge_interrupts [level_high, level_low, level_high, level_low] 0 button_A_registered
       = button_A_pressed
   \<and> num_of_presses (system_buttons_infos
        (edge_interrupts [level_high, level_low, level_high, level_low] 0 button_A_registered) ! 0)
       = 1
   \<and> count_list (calls
        (edge_interrupts [level_high, level_low, level_high, level_low] 0 button_A_registered))
        (Call_button_CB 0) = 1"
proof -
  have a: "0 < length (system_buttons_infos button_A_registered)" by code_simp
  have b: "ID (system_buttons_infos button_A_registered ! 0) = 0" by code_simp
  have c: "debounce_timer_expired (system_buttons_infos button_A_registered ! 0)" by code_simp
  have d: "\<not> xTimerIsTimerActive level_high
              (debounce (system_buttons_infos button_A_registered ! 0))" by code_simp
  have e: "num_of_presses (system_buttons_infos button_A_registered ! 0) = 0" by code_simp
  have f: "count_list (calls button_A_registered) (Call_button_CB 0) = 0" by code_simp
  note t = one_press_per_debounce_window [OF a b c d, of "[level_low, level_high, level_low]"]
  have t1: "edge_interrupts [level_high, level_low, level_high, level_low] 0 button_A_registered
              = button_A_pressed"
    unfolding button_A_pressed_def by (rule t [THEN conjunct1])
  have t2: "num_of_presses (system_buttons_infos
        (edge_interrupts [level_high, level_low, level_high, level_low] 0 button_A_registered) ! 0)
       = 1"
    using t [THEN conjunct2, THEN conjunct1] by (simp only: e add_0)
  have t3: "count_list (calls
        (edge_interrupts [level_high, level_low, level_high, level_low] 0 button_A_registered))
        (Call_button_CB 0) = 1"
    using t [THEN conjunct2, THEN conjunct2, THEN conjunct2, THEN conjunct1]
    by (simp only: f add_0)
  show ?thesis
    using a b c d t1 t2 t3 by blast
qed

subsection \<open>Expiry of the debounce timer\<close>

text \<open>
  Claim C4. \<open>timer_CB\<close> runs for the timer named after button \<open>k\<close> (the names of the
  enumerators are distinct). If the pin of the button reads \<open>BUTTON_IS_PRESSED\<close>, the only
  effect is a call of \<open>xTimerStartFromISR\<close> on the debounce timer of that button: the
  array is unchanged, so the button stays in its debounce window and its press counter,
  its stored level and its descriptor are what they were. If the pin reads any other
  level, the only effect is that the flag \<open>debounce_timer_expired\<close> of button \<open>k\<close> is
  set: no call is made and no other field of any button changes.
\<close>

theorem timer_CB_settle_check:
  assumes "distinct (BUTTONS p)" and "k < NUM_OF_BUTTONS p"
    and "pcTimerGetName t = BUTTONS p ! k"
  shows "(gpio_get_level h (GPIO (system_buttons_infos s ! k)) = BUTTON_IS_PRESSED p \<longrightarrow>
            timer_CB p h t s =
              s\<lparr>calls := calls s
                  @ [Call_xTimerStartFromISR (debounce (system_buttons_infos s ! k))]\<rparr>)
       \<and> (gpio_get_level h (GPIO (system_buttons_infos s ! k)) \<noteq> BUTTON_IS_PRESSED p \<longrightarrow>
            timer_CB p h t s =
              s\<lparr>system_buttons_infos :=
                  (system_buttons_infos s)
                    [k := (system_buttons_infos s ! k)\<lparr>debounce_timer_expired := True\<rparr>]\<rparr>)"
  using assms by (simp add: timer_CB_def timer_button_ID_match Let_def)

theorem timer_CB_settle_check_witness:
  "distinct (BUTTONS two_buttons) \<and> 0 < NUM_OF_BUTTONS two_buttons
   \<and> pcTimerGetName (Timer ''BUTTON_A'' 5) = BUTTONS two_buttons ! 0
   \<and> gpio_get_level level_high (GPIO (system_buttons_infos button_A_pressed ! 0))
       = BUTTON_IS_PRESSED two_buttons
   \<and> timer_CB two_buttons level_high (Timer ''BUTTON_A'' 5) button_A_pressed
       = button_A_pressed\<lparr>calls := calls button_A_pressed
           @ [Call_xTimerStartFromISR (debounce (system_buttons_infos button_A_pressed ! 0))]\<rparr>
   \<and> gpio_get_level level_low (GPIO (system_buttons_infos button_A_pressed ! 0))
       \<noteq> BUTTON_IS_PRESSED two_buttons
   \<and> timer_CB two_buttons level_low (Timer ''BUTTON_A'' 5) button_A_pressed
       = button_A_pressed\<lparr>system_buttons_infos :=
           (system_buttons_infos button_A_pressed)
             [0 := (system_buttons_infos button_A_pressed ! 0)
                \<lparr>debounce_timer_expired := True\<rparr>]\<rparr>"
proof -
  have a: "distinct (BUTTONS two_buttons)" by code_simp
  have b: "0 < NUM_OF_BUTTONS two_buttons" by code_simp
  have c: "pcTimerGetName (Timer ''BUTTON_A'' 5) = BUTTONS two_buttons ! 0" by code_simp
  have d: "gpio_get_level level_high (GPIO (system_buttons_infos button_A_pressed ! 0))
             = BUTTON_IS_PRESSED two_buttons" by code_simp
  have e: "gpio_get_level level_low (GPIO (system_buttons_infos button_A_pressed ! 0))
             \<noteq> BUTTON_IS_PRESSED two_buttons" by code_simp
  show ?thesis
    using a b c d e
      timer_CB_settle_check [OF a b c, of level_high button_A_pressed]
      timer_CB_settle_check [OF a b c, of level_low button_A_pressed]
    by blast
qed

subsection \<open>Registering twice\<close>

text \<open>
  Claim C6. The module is initialized and \<open>i\<close> is an identifier of the enumeration.
  When a call of \<open>init_button\<close> on \<open>i\<close> that the GPIO driver did not fail is followed
  immediately by a second call on \<open>i\<close>, the second call returns
  \<open>BSP_BUTTON_WAS_INITIALIZED_ERR\<close> and leaves the whole module state as the first call
  left it: the flag, every field of every button, and the log of calls to the
  collaborators, whatever the collaborators would have answered.
\<close>

theorem second_init_button_rejected:
  assumes "button_module_was_initialized s" and "check_button_ID p i"
    and "length (system_buttons_infos s) = NUM_OF_BUTTONS p"
    and "fst (init_button p h i s) \<noteq> BSP_BUTTON_INIT_ERR"
  shows "init_button p h' i (snd (init_button p h i s))
           = (BSP_BUTTON_WAS_INITIALIZED_ERR, snd (init_button p h i s))"
proof (cases "was_initialized (system_buttons_infos s ! i)")
  case True
  with assms show ?thesis by (simp add: init_button_def)
next
  case False
  from assms(2,3) have "i < length (system_buttons_infos s)"
    by (simp add: check_button_ID_iff)
  then have "init_button p h' i (snd (init_button p h i s))
      = (BSP_BUTTON_WAS_INITIALIZED_ERR, snd (init_button p h i s))"
    unfolding init_button_fresh [OF assms(1,2) False assms(4)] snd_conv
    using assms(1,2) by (simp add: init_button_def)
  then show ?thesis .
qed

theorem second_init_button_rejected_witness:
  "button_module_was_initialized module_ready \<and> check_button_ID two_buttons 0
   \<and> length (system_buttons_infos module_ready) = NUM_OF_BUTTONS two_buttons
   \<and> init_button two_buttons level_high 0 module_ready = (BSP_BUTTON_OK, button_A_registered)
   \<and> init_button two_buttons level_low 0 button_A_registered
       = (BSP_BUTTON_WAS_INITIALIZED_ERR, button_A_registered)"
proof -
  have a: "button_module_was_initialized module_ready" by code_simp
  have b: "check_button_ID two_buttons 0" by code_simp
  have c: "length (system_buttons_infos module_ready) = NUM_OF_BUTTONS two_buttons"
    by code_simp
  have d: "fst (init_button two_buttons level_high 0 module_ready) = BSP_BUTTON_OK"
    by code_simp
  then have e: "fst (init_button two_buttons level_high 0 module_ready) \<noteq> BSP_BUTTON_INIT_ERR"
    by simp
  have f: "init_button two_buttons level_high 0 module_ready
             = (BSP_BUTTON_OK, button_A_registered)"
    using d by (simp add: button_A_registered_def prod_eq_iff)
  show ?thesis
    using a b c f second_init_button_rejected [OF a b c e, of level_low]
    by (simp add: button_A_registered_def)
qed

subsection \<open>Initializing the module once\<close>

text \<open>
  Claim C9. Once a call of \<open>init_BSP_button_module\<close> has returned \<open>BSP_BUTTON_OK\<close>, every
  later call, after any history of actions, returns \<open>BSP_BUTTON_OK\<close> and leaves the
  module state untouched: nothing is validated again, no call is made to a collaborator
  (the log is the same), no field changes. While the module flag is not set, each of the
  four other functions returns \<open>BSP_BUTTON_MODULE_WAS_NOT_INIT_ERR\<close> and changes neither
  the state nor its output parameter; and from program start the flag is not set before
  some call of \<open>init_BSP_button_module\<close> has returned \<open>BSP_BUTTON_OK\<close>.
\<close>

theorem init_BSP_button_module_idempotent:
  "(init_BSP_button_module p h0 s0 = (BSP_BUTTON_OK, s1) \<longrightarrow>
      init_BSP_button_module p h (run p as s1) = (BSP_BUTTON_OK, run p as s1))
   \<and> (\<not> button_module_was_initialized s \<longrightarrow>
        init_button p h i s = (BSP_BUTTON_MODULE_WAS_NOT_INIT_ERR, s)
      \<and> de_init_button p h i s = (BSP_BUTTON_MODULE_WAS_NOT_INIT_ERR, s)
      \<and> read_button_state p i out_state s = (BSP_BUTTON_MODULE_WAS_NOT_INIT_ERR, out_state)
      \<and> get_num_of_presses p i out_presses s
          = (BSP_BUTTON_MODULE_WAS_NOT_INIT_ERR, out_presses))
   \<and> (button_module_was_initialized (run p as (initial_state p)) \<longrightarrow>
        (\<exists>pre h' post. as = pre @ Do_init_BSP_button_module h' # post
           \<and> fst (init_BSP_button_module p h' (run p pre (initial_state p))) = BSP_BUTTON_OK))"
proof (intro conjI impI)
  assume ok: "init_BSP_button_module p h0 s0 = (BSP_BUTTON_OK, s1)"
  have "button_module_was_initialized s1"
    using init_BSP_flag [of p h0 s0] ok by simp
  then have "button_module_was_initialized (run p as s1)" by (rule run_keeps_flag)
  then show "init_BSP_button_module p h (run p as s1) = (BSP_BUTTON_OK, run p as s1)"
    by (rule init_BSP_noop)
next
  assume "button_module_was_initialized (run p as (initial_state p))"
  moreover have "\<not> button_module_was_initialized (initial_state p)"
    by (simp add: initial_state_def)
  ultimately show "\<exists>pre h' post. as = pre @ Do_init_BSP_button_module h' # post
           \<and> fst (init_BSP_button_module p h' (run p pre (initial_state p))) = BSP_BUTTON_OK"
    using flag_needs_successful_init by blast
qed (simp_all add: init_button_def de_init_button_def read_button_state_def
       get_num_of_presses_def)

theorem init_BSP_button_module_idempotent_witness:
  "init_BSP_button_module two_buttons level_high (initial_state two_buttons)
     = (BSP_BUTTON_OK, module_ready)
   \<and> init_BSP_button_module two_buttons level_low
       (run two_buttons [Do_init_button level_high 0, Do_generic_button_CB level_high 0]
          module_ready)
     = (BSP_BUTTON_OK,
        run two_buttons [Do_init_button level_high 0, Do_generic_button_CB level_high 0]
          module_ready)
   \<and> \<not> button_module_was_initialized (initial_state two_buttons)
   \<and> init_button two_buttons level_low 0 (initial_state two_buttons)
       = (BSP_BUTTON_MODULE_WAS_NOT_INIT_ERR, initial_state two_buttons)
   \<and> de_init_button two_buttons level_low 0 (initial_state two_buttons)
       = (BSP_BUTTON_MODULE_WAS_NOT_INIT_ERR, initial_state two_buttons)
   \<and> read_button_state two_buttons 0 7 (initial_state two_buttons)
       = (BSP_BUTTON_MODULE_WAS_NOT_INIT_ERR, 7)
   \<and> get_num_of_presses two_buttons 0 7 (initial_state two_buttons)
       = (BSP_BUTTON_MODULE_WAS_NOT_INIT_ERR, 7)"
proof -
  have a: "fst (init_BSP_button_module two_buttons level_high (initial_state two_buttons))
             = BSP_BUTTON_OK" by code_simp
  then have b: "init_BSP_button_module two_buttons level_high (initial_state two_buttons)
             = (BSP_BUTTON_OK, module_ready)"
    by (simp add: module_ready_def prod_eq_iff)
  have c: "\<not> button_module_was_initialized (initial_state two_buttons)" by code_simp
  show ?thesis
    using b c
      init_BSP_button_module_idempotent [where p = two_buttons and ?h0.0 = level_high
        and ?s0.0 = "initial_state two_buttons" and ?s1.0 = module_ready and h = level_low
        and as = "[Do_init_button level_high 0, Do_generic_button_CB level_high 0]"
        and s = "initial_state two_buttons" and i = 0 and out_state = 7 and out_presses = 7]
    by blast
qed

subsection \<open>A timer that is not a button's\<close>

text \<open>
  Claim C10. When the name of the timer given to \<open>timer_CB\<close> is the name of no
  enumerator of \<open>BUTTONS\<close>, the identifier stays at its initial value 0 and the function
  goes on with button 0: it samples the pin of button 0 and either starts the debounce
  timer of button 0 again or sets the flag \<open>debounce_timer_expired\<close> of button 0.
\<close>

theorem timer_CB_unmatched_name_uses_button_0:
  assumes "pcTimerGetName t \<notin> set (BUTTONS p)"
  shows "timer_button_ID p (pcTimerGetName t) = 0
       \<and> timer_CB p h t s =
          (if gpio_get_level h (GPIO (system_buttons_infos s ! 0)) = BUTTON_IS_PRESSED p
           then s\<lparr>calls := calls s
                    @ [Call_xTimerStartFromISR (debounce (system_buttons_infos s ! 0))]\<rparr>
           else s\<lparr>system_buttons_infos :=
                    (system_buttons_infos s)
                      [0 := (system_buttons_infos s ! 0)\<lparr>debounce_timer_expired := True\<rparr>]\<rparr>)"
  using assms by (simp add: timer_CB_def timer_button_ID_no_match Let_def)

theorem timer_CB_unmatched_name_uses_button_0_witness:
  "pcTimerGetName (Timer ''OTHER_MODULE'' 3) \<notin> set (BUTTONS two_buttons)
   \<and> timer_CB two_buttons level_low (Timer ''OTHER_MODULE'' 3) button_A_pressed
       = button_A_pressed\<lparr>system_buttons_infos :=
           (system_buttons_infos button_A_pressed)
             [0 := (system_buttons_infos button_A_pressed ! 0)
                \<lparr>debounce_timer_expired := True\<rparr>]\<rparr>
   \<and> timer_CB two_buttons level_high (Timer ''OTHER_MODULE'' 3) button_A_pressed
       = button_A_pressed\<lparr>calls := calls button_A_pressed
           @ [Call_xTimerStartFromISR (debounce (system_buttons_infos button_A_pressed ! 0))]\<rparr>"
proof -
  have a: "pcTimerGetName (Timer ''OTHER_MODULE'' 3) \<notin> set (BUTTONS two_buttons)"
    by code_simp
  have b: "gpio_get_level level_low (GPIO (system_buttons_infos button_A_pressed ! 0))
             \<noteq> BUTTON_IS_PRESSED two_buttons" by code_simp
  have c: "gpio_get_level level_high (GPIO (system_buttons_infos button_A_pressed ! 0))
             = BUTTON_IS_PRESSED two_buttons" by code_simp
  show ?thesis
    using a timer_CB_unmatched_name_uses_button_0 [OF a, of level_low button_A_pressed]
      timer_CB_unmatched_name_uses_button_0 [OF a, of level_high button_A_pressed]
    by (simp only: b c if_True if_False) simp
qed

subsection \<open>Identifiers outside the enumeration\<close>

text \<open>
  Claim C7. After the module was initialized, each of the four functions that take an
  identifier returns \<open>BSP_BUTTON_DOES_NOT_EXIST_ERR\<close> for an identifier that
  \<open>check_button_ID\<close> refuses (by \<open>check_button_ID_iff\<close>, an identifier that is not below
  \<open>NUM_OF_BUTTONS\<close>), and changes neither the module state nor its output parameter.
\<close>

theorem unknown_identifier_does_not_exist:
  assumes "button_module_was_initialized s" and "\<not> check_button_ID p i"
  shows "init_button p h i s = (BSP_BUTTON_DOES_NOT_EXIST_ERR, s)
       \<and> de_init_button p h i s = (BSP_BUTTON_DOES_NOT_EXIST_ERR, s)
       \<and> read_button_state p i out_state s = (BSP_BUTTON_DOES_NOT_EXIST_ERR, out_state)
       \<and> get_num_of_presses p i out_presses s = (BSP_BUTTON_DOES_NOT_EXIST_ERR, out_presses)"
  using assms
  by (simp add: init_button_def de_init_button_def read_button_state_def get_num_of_presses_def)

theorem unknown_identifier_does_not_exist_witness:
  "button_module_was_initialized button_A_pressed \<and> \<not> check_button_ID two_buttons 2
   \<and> init_button two_buttons level_high 2 button_A_pressed
       = (BSP_BUTTON_DOES_NOT_EXIST_ERR, button_A_pressed)
   \<and> de_init_button two_buttons level_high 2 button_A_pressed
       = (BSP_BUTTON_DOES_NOT_EXIST_ERR, button_A_pressed)
   \<and> read_button_state two_buttons 2 7 button_A_pressed = (BSP_BUTTON_DOES_NOT_EXIST_ERR, 7)
   \<and> get_num_of_presses two_buttons 2 7 button_A_pressed = (BSP_BUTTON_DOES_NOT_EXIST_ERR, 7)"
proof -
  have a: "button_module_was_initialized button_A_pressed" by code_simp
  have b: "\<not> check_button_ID two_buttons 2" by code_simp
  show ?thesis
    using a b unknown_identifier_does_not_exist [OF a b, of level_high 7 7] by simp
qed

subsection \<open>The two loops of check_configurations_sort_and_init\<close>

lemma check_and_sort_None_iff:
  "check_and_sort p infos is bi = None
     \<longleftrightarrow> (\<exists>i\<in>set is. \<not> valid_button_info p (infos ! i))"
  by (induction "is" arbitrary: bi) (auto simp: valid_button_info_def)

lemma check_and_sort_length:
  "check_and_sort p infos is bi = Some bi' \<Longrightarrow> length bi' = length bi"
  by (induction "is" arbitrary: bi) (auto split: if_splits)

lemma check_and_sort_other:
  "check_and_sort p infos is bi = Some bi' \<Longrightarrow> j \<notin> (\<lambda>i. ID (infos ! i)) ` set is
   \<Longrightarrow> bi' ! j = bi ! j"
proof (induction "is" arbitrary: bi)
  case Nil
  then show ?case by simp
next
  case (Cons i "is")
  from Cons.prems(1) have rest:
    "check_and_sort p infos is (bi[ID (infos ! i) := infos ! i]) = Some bi'"
    by (simp split: if_splits)
  from Cons.prems(2) have "j \<noteq> ID (infos ! i)" "j \<notin> (\<lambda>i. ID (infos ! i)) ` set is"
    by auto
  with Cons.IH [OF rest] show ?case by simp
qed

lemma check_and_sort_placed:
  "check_and_sort p infos is bi = Some bi' \<Longrightarrow> distinct (map (\<lambda>i. ID (infos ! i)) is)
   \<Longrightarrow> \<forall>i\<in>set is. ID (infos ! i) < length bi
   \<Longrightarrow> \<forall>i\<in>set is. bi' ! ID (infos ! i) = infos ! i"
proof (induction "is" arbitrary: bi)
  case Nil
  then show ?case by simp
next
  case (Cons i "is")
  let ?bi = "bi[ID (infos ! i) := infos ! i]"
  from Cons.prems(1) have rest: "check_and_sort p infos is ?bi = Some bi'"
    by (simp split: if_splits)
  from Cons.prems(2) have new: "ID (infos ! i) \<notin> (\<lambda>i. ID (infos ! i)) ` set is"
    and dist: "distinct (map (\<lambda>i. ID (infos ! i)) is)"
    by auto
  from Cons.prems(3) have here: "ID (infos ! i) < length bi"
    and there: "\<forall>i\<in>set is. ID (infos ! i) < length ?bi"
    by auto
  have "bi' ! ID (infos ! i) = ?bi ! ID (infos ! i)"
    using rest new by (rule check_and_sort_other)
  then have "bi' ! ID (infos ! i) = infos ! i"
    using here by simp
  with Cons.IH [OF rest dist there] show ?case by simp
qed

lemma copy_and_create_timers_length:
  "length (system_buttons_infos (snd (copy_and_create_timers p h bi is s)))
     = length (system_buttons_infos s)"
  by (induction "is" arbitrary: s) (simp_all add: Let_def split: option.splits)

lemma copy_and_create_timers_calls:
  "c \<in> set (calls (snd (copy_and_create_timers p h bi is s)))
   \<Longrightarrow> c \<in> set (calls s) \<or> (\<exists>n t. c = Call_xTimerCreate n t)"
proof (induction "is" arbitrary: s)
  case Nil
  then show ?case by simp
next
  case (Cons i "is")
  show ?case
  proof (cases "find (\<lambda>c. BUTTON_ID c = i) (BUTTONS_CONFIGURATIONS p)")
    case None
    with Cons.prems show ?thesis by simp
  next
    case (Some cf)
    show ?thesis
    proof (cases "xTimerCreate_succeeds h (BUTTON_ID_token cf)")
      case False
      with Some Cons.prems show ?thesis by (auto simp: Let_def)
    next
      case True
      with Some Cons.prems Cons.IH show ?thesis by (fastforce simp: Let_def)
    qed
  qed
qed

lemma copy_and_create_timers_True:
  "copy_and_create_timers p h bi is s = (True, s') \<Longrightarrow> distinct is
   \<Longrightarrow> \<forall>i\<in>set is. i < length (system_buttons_infos s)
   \<Longrightarrow> (\<forall>i. i \<notin> set is \<longrightarrow> system_buttons_infos s' ! i = system_buttons_infos s ! i)
     \<and> (\<forall>i\<in>set is. \<exists>c. find (\<lambda>c. BUTTON_ID c = i) (BUTTONS_CONFIGURATIONS p) = Some c
           \<and> system_buttons_infos s' ! i = (bi ! i)\<lparr>debounce := Some (debounce_timer p c)\<rparr>)"
proof (induction "is" arbitrary: s)
  case Nil
  then show ?case by simp
next
  case (Cons i "is")
  from Cons.prems(1) obtain cf where
    found: "find (\<lambda>c. BUTTON_ID c = i) (BUTTONS_CONFIGURATIONS p) = Some cf"
    by (cases "find (\<lambda>c. BUTTON_ID c = i) (BUTTONS_CONFIGURATIONS p)") simp_all
  let ?s2 = "s\<lparr>system_buttons_infos :=
       (system_buttons_infos s)[i := (bi ! i)\<lparr>debounce := Some (debounce_timer p cf)\<rparr>],
     calls := calls s @ [Call_xTimerCreate (BUTTON_ID_token cf)
       (BOUNCE_TIME cf div portTICK_PERIOD_MS p)]\<rparr>"
  from Cons.prems(3) have i: "i < length (system_buttons_infos s)" by simp
  from Cons.prems(1) found i have rest: "copy_and_create_timers p h bi is ?s2 = (True, s')"
    by (simp add: Let_def debounce_timer_def split: if_splits)
  from Cons.prems(2) have dist: "distinct is" and fresh: "i \<notin> set is" by simp_all
  from Cons.prems(3) have range: "\<forall>i\<in>set is. i < length (system_buttons_infos ?s2)" by simp
  note IH = Cons.IH [OF rest dist range]
  have "system_buttons_infos s' ! i = system_buttons_infos ?s2 ! i"
    using IH fresh by blast
  then have at_i: "system_buttons_infos s' ! i
      = (bi ! i)\<lparr>debounce := Some (debounce_timer p cf)\<rparr>"
    using i by simp
  have others: "\<forall>j. j \<notin> set (i # is) \<longrightarrow>
      system_buttons_infos s' ! j = system_buttons_infos s ! j"
  proof (intro allI impI)
    fix j assume "j \<notin> set (i # is)"
    then have "j \<noteq> i" "j \<notin> set is" by simp_all
    with IH have "system_buttons_infos s' ! j = system_buttons_infos ?s2 ! j" by blast
    with \<open>j \<noteq> i\<close> show "system_buttons_infos s' ! j = system_buttons_infos s ! j" by simp
  qed
  show ?case
    using others at_i found IH by simp
qed

lemma find_distinct_key:
  "distinct (map f xs) \<Longrightarrow> x \<in> set xs \<Longrightarrow> find (\<lambda>c. f c = f x) xs = Some x"
  by (induction xs) (auto simp: image_iff)

lemma covered_distinct:
  assumes "\<forall>i<n. i \<in> set ks" and "length ks \<le> n"
  shows "distinct ks \<and> length ks = n"
proof -
  have "{0..<n} \<subseteq> set ks" using assms(1) by auto
  then have "card {0..<n} \<le> card (set ks)" by (intro card_mono) simp_all
  then have "n \<le> card (set ks)" by simp
  moreover have "card (set ks) \<le> length ks" by (rule card_length)
  ultimately have "card (set ks) = length ks" "length ks = n" using assms(2) by simp_all
  then show ?thesis by (simp add: card_distinct)
qed


lemma find_SomeD: "find P xs = Some x \<Longrightarrow> P x \<and> x \<in> set xs"
  by (induction xs) (auto split: if_splits)

lemma list_update_keeps:
  assumes "\<forall>e\<in>set xs. P e" and "i < length xs \<Longrightarrow> P y"
  shows "\<forall>e\<in>set (xs[i := y]). P e"
proof (cases "i < length xs")
  case True
  have "set (xs[i := y]) \<subseteq> insert y (set xs)" by (rule set_update_subset_insert)
  with assms True show ?thesis by auto
next
  case False
  then have "xs[i := y] = xs" by (intro list_update_beyond) simp
  with assms(1) show ?thesis by simp
qed

lemma check_and_sort_unregistered:
  "check_and_sort p infos is bi = Some bi' \<Longrightarrow> \<forall>e\<in>set bi. \<not> was_initialized e
   \<Longrightarrow> \<forall>i\<in>set is. \<not> was_initialized (infos ! i) \<Longrightarrow> \<forall>e\<in>set bi'. \<not> was_initialized e"
proof (induction "is" arbitrary: bi)
  case Nil
  then show ?case by simp
next
  case (Cons i "is")
  let ?bi = "bi[ID (infos ! i) := infos ! i]"
  from Cons.prems(1) have rest: "check_and_sort p infos is ?bi = Some bi'"
    by (simp split: if_splits)
  have "\<forall>e\<in>set ?bi. \<not> was_initialized e"
    using Cons.prems(3) by (intro list_update_keeps [OF Cons.prems(2)]) simp
  moreover have "\<forall>i\<in>set is. \<not> was_initialized (infos ! i)"
    using Cons.prems(3) by simp
  ultimately show ?case by (rule Cons.IH [OF rest])
qed

lemma copy_and_create_timers_unregistered:
  "\<forall>e\<in>set (system_buttons_infos s). \<not> was_initialized e
   \<Longrightarrow> \<forall>e\<in>set bi. \<not> was_initialized e \<Longrightarrow> \<forall>i\<in>set is. i < length bi
   \<Longrightarrow> \<forall>e\<in>set (system_buttons_infos (snd (copy_and_create_timers p h bi is s))).
         \<not> was_initialized e"
proof (induction "is" arbitrary: s)
  case Nil
  then show ?case by simp
next
  case (Cons i "is")
  let ?infos1 = "(system_buttons_infos s)[i := bi ! i]"
  have bi_i: "\<not> was_initialized (bi ! i)"
    using Cons.prems(2,3) by simp
  have one: "\<forall>e\<in>set ?infos1. \<not> was_initialized e"
    using bi_i by (intro list_update_keeps [OF Cons.prems(1)])
  have two: "\<forall>e\<in>set (?infos1[i := (?infos1 ! i)\<lparr>debounce := d\<rparr>]). \<not> was_initialized e" for d
  proof (rule list_update_keeps [OF one])
    assume "i < length ?infos1"
    then have "?infos1 ! i \<in> set ?infos1" by (rule nth_mem)
    with one show "\<not> was_initialized ((?infos1 ! i)\<lparr>debounce := d\<rparr>)" by simp
  qed
  have range: "\<forall>i\<in>set is. i < length bi" using Cons.prems(3) by simp
  show ?case
  proof (cases "find (\<lambda>c. BUTTON_ID c = i) (BUTTONS_CONFIGURATIONS p)")
    case None
    with one show ?thesis by simp
  next
    case (Some cf)
    show ?thesis
    proof (cases "xTimerCreate_succeeds h (BUTTON_ID_token cf)")
      case False
      with Some two [of None] show ?thesis by (simp add: Let_def)
    next
      case True
      let ?s2 = "s\<lparr>system_buttons_infos :=
          ?infos1[i := (?infos1 ! i)\<lparr>debounce := Some (Timer (BUTTON_ID_token cf)
            (BOUNCE_TIME cf div portTICK_PERIOD_MS p))\<rparr>],
        calls := calls s @ [Call_xTimerCreate (BUTTON_ID_token cf)
          (BOUNCE_TIME cf div portTICK_PERIOD_MS p)]\<rparr>"
      have "\<forall>e\<in>set (system_buttons_infos ?s2). \<not> was_initialized e"
        using two by simp
      from Cons.IH [OF this Cons.prems(2) range] Some True show ?thesis
        by (simp add: Let_def)
    qed
  qed
qed

lemma initial_infos:
  assumes "length (BUTTONS_CONFIGURATIONS p) \<le> NUM_OF_BUTTONS p"
  shows "length (system_buttons_infos (initial_state p)) = NUM_OF_BUTTONS p"
    and "\<forall>m<length (BUTTONS_CONFIGURATIONS p).
           system_buttons_infos (initial_state p) ! m
             = static_info p (BUTTONS_CONFIGURATIONS p ! m)"
    and "\<forall>e\<in>set (system_buttons_infos (initial_state p)). \<not> was_initialized e"
  using assms by (auto simp: initial_state_def nth_append static_info_def zero_info_def)

lemma invalid_line_rejected:
  assumes len: "length (BUTTONS_CONFIGURATIONS p) \<le> NUM_OF_BUTTONS p"
    and bad: "c \<in> set (BUTTONS_CONFIGURATIONS p)" "\<not> valid_button_config p c"
  shows "check_configurations_sort_and_init p h (initial_state p) = (False, initial_state p)"
proof -
  from bad(1) obtain m where m: "m < length (BUTTONS_CONFIGURATIONS p)"
    "BUTTONS_CONFIGURATIONS p ! m = c"
    by (auto simp: in_set_conv_nth)
  with initial_infos(2) [OF len] bad(2)
  have "\<not> valid_button_info p (system_buttons_infos (initial_state p) ! m)"
    by (simp add: valid_button_config_def)
  moreover have "m \<in> set [0..<NUM_OF_BUTTONS p]" using m(1) len by simp
  ultimately have "check_and_sort p (system_buttons_infos (initial_state p))
      [0..<NUM_OF_BUTTONS p] (replicate (NUM_OF_BUTTONS p) zero_info) = None"
    unfolding check_and_sort_None_iff by blast
  then show ?thesis by (simp add: check_configurations_sort_and_init_def)
qed

lemma declared_table_accepted:
  assumes len: "length (BUTTONS_CONFIGURATIONS p) \<le> NUM_OF_BUTTONS p"
    and ok: "check_configurations_sort_and_init p h (initial_state p) = (True, s1)"
  shows "distinct (map BUTTON_ID (BUTTONS_CONFIGURATIONS p))
       \<and> length (BUTTONS_CONFIGURATIONS p) = NUM_OF_BUTTONS p
       \<and> (\<forall>c\<in>set (BUTTONS_CONFIGURATIONS p). valid_button_config p c
            \<and> system_buttons_infos s1 ! BUTTON_ID c
                = (static_info p c)\<lparr>debounce := Some (debounce_timer p c)\<rparr>)
       \<and> (\<forall>i<NUM_OF_BUTTONS p. ID (system_buttons_infos s1 ! i) = i)
       \<and> (\<forall>i<NUM_OF_BUTTONS p. i \<in> set (map BUTTON_ID (BUTTONS_CONFIGURATIONS p)))"
proof -
  let ?cfgs = "BUTTONS_CONFIGURATIONS p"
  let ?N = "NUM_OF_BUTTONS p"
  let ?infos0 = "system_buttons_infos (initial_state p)"
  note len0 = initial_infos(1) [OF len]
  from ok obtain bi where
    sorted: "check_and_sort p ?infos0 [0..<?N] (replicate ?N zero_info) = Some bi"
    and copied: "copy_and_create_timers p h bi [0..<?N] (initial_state p) = (True, s1)"
    by (auto simp: check_configurations_sort_and_init_def split: option.splits)
  have timers: "\<forall>i<?N. \<exists>c. find (\<lambda>c. BUTTON_ID c = i) ?cfgs = Some c
      \<and> system_buttons_infos s1 ! i = (bi ! i)\<lparr>debounce := Some (debounce_timer p c)\<rparr>"
    using copy_and_create_timers_True [OF copied] len0 by simp
  have cover: "\<forall>i<?N. i \<in> set (map BUTTON_ID ?cfgs)"
  proof (intro allI impI)
    fix i assume "i < ?N"
    with timers obtain c where "find (\<lambda>c. BUTTON_ID c = i) ?cfgs = Some c" by blast
    then have "BUTTON_ID c = i" "c \<in> set ?cfgs" by (auto dest: find_SomeD)
    then show "i \<in> set (map BUTTON_ID ?cfgs)" by auto
  qed
  have "distinct (map BUTTON_ID ?cfgs) \<and> length (map BUTTON_ID ?cfgs) = ?N"
    using cover len by (intro covered_distinct) simp_all
  then have dist: "distinct (map BUTTON_ID ?cfgs)" and full: "length ?cfgs = ?N"
    by simp_all
  have at0: "\<forall>m<?N. ?infos0 ! m = static_info p (?cfgs ! m)"
    using initial_infos(2) [OF len] full by simp
  have valid0: "\<forall>m<?N. valid_button_info p (?infos0 ! m)"
    using sorted check_and_sort_None_iff [of p ?infos0 "[0..<?N]" "replicate ?N zero_info"]
    by auto
  have ids: "map (\<lambda>i. ID (?infos0 ! i)) [0..<?N] = map BUTTON_ID ?cfgs"
    using at0 full by (simp add: list_eq_iff_nth_eq static_info_def)
  have "\<forall>i\<in>set [0..<?N]. bi ! ID (?infos0 ! i) = ?infos0 ! i"
  proof (rule check_and_sort_placed [OF sorted])
    show "distinct (map (\<lambda>i. ID (?infos0 ! i)) [0..<?N])"
      using dist by (simp only: ids)
    show "\<forall>i\<in>set [0..<?N]. ID (?infos0 ! i) < length (replicate ?N zero_info)"
      using valid0 by (simp add: valid_button_info_def check_button_ID_iff)
  qed
  then have placed: "\<forall>m<?N. bi ! BUTTON_ID (?cfgs ! m) = static_info p (?cfgs ! m)"
    using at0 by (simp add: static_info_def)
  have lines: "\<forall>c\<in>set ?cfgs. valid_button_config p c
      \<and> system_buttons_infos s1 ! BUTTON_ID c
          = (static_info p c)\<lparr>debounce := Some (debounce_timer p c)\<rparr>"
  proof
    fix c assume c: "c \<in> set ?cfgs"
    then obtain m where m: "m < ?N" "?cfgs ! m = c"
      using full by (auto simp: in_set_conv_nth)
    have v: "valid_button_config p c"
      using valid0 at0 m by (auto simp: valid_button_config_def)
    then have "BUTTON_ID c < ?N"
      by (simp add: valid_button_config_def valid_button_info_def check_button_ID_iff
          static_info_def)
    with timers obtain c' where c': "find (\<lambda>x. BUTTON_ID x = BUTTON_ID c) ?cfgs = Some c'"
      "system_buttons_infos s1 ! BUTTON_ID c
         = (bi ! BUTTON_ID c)\<lparr>debounce := Some (debounce_timer p c')\<rparr>"
      by blast
    have "c' = c" using find_distinct_key [OF dist c] c'(1) by simp
    moreover have "bi ! BUTTON_ID c = static_info p c" using placed m by auto
    ultimately show "valid_button_config p c
      \<and> system_buttons_infos s1 ! BUTTON_ID c
          = (static_info p c)\<lparr>debounce := Some (debounce_timer p c)\<rparr>"
      using v c'(2) by simp
  qed
  have positions: "\<forall>i<?N. ID (system_buttons_infos s1 ! i) = i"
  proof (intro allI impI)
    fix i assume "i < ?N"
    with cover obtain c where "c \<in> set ?cfgs" "BUTTON_ID c = i" by auto
    with lines show "ID (system_buttons_infos s1 ! i) = i"
      by (auto simp: static_info_def)
  qed
  show ?thesis using dist full lines positions cover by blast
qed

lemma check_configurations_unregistered:
  assumes "length (BUTTONS_CONFIGURATIONS p) \<le> NUM_OF_BUTTONS p"
  shows "\<forall>e\<in>set (system_buttons_infos
            (snd (check_configurations_sort_and_init p h (initial_state p)))).
           \<not> was_initialized e"
proof (cases "check_and_sort p (system_buttons_infos (initial_state p))
    [0..<NUM_OF_BUTTONS p] (replicate (NUM_OF_BUTTONS p) zero_info)")
  case None
  with initial_infos(3) [OF assms] show ?thesis
    by (simp add: check_configurations_sort_and_init_def)
next
  case (Some bi)
  have uninit: "\<forall>i\<in>set [0..<NUM_OF_BUTTONS p].
      \<not> was_initialized (system_buttons_infos (initial_state p) ! i)"
    using initial_infos(1,3) [OF assms] by simp
  have zeros: "\<forall>e\<in>set (replicate (NUM_OF_BUTTONS p) zero_info). \<not> was_initialized e"
    by (simp add: zero_info_def)
  have bi: "\<forall>e\<in>set bi. \<not> was_initialized e"
    using Some zeros uninit by (rule check_and_sort_unregistered)
  have "length bi = NUM_OF_BUTTONS p"
    using check_and_sort_length [OF Some] by simp
  then have "\<forall>i\<in>set [0..<NUM_OF_BUTTONS p]. i < length bi" by simp
  then have "\<forall>e\<in>set (system_buttons_infos
      (snd (copy_and_create_timers p h bi [0..<NUM_OF_BUTTONS p] (initial_state p)))).
      \<not> was_initialized e"
    by (rule copy_and_create_timers_unregistered [OF initial_infos(3) [OF assms] bi])
  with Some show ?thesis
    by (simp add: check_configurations_sort_and_init_def)
qed

lemma check_configurations_length:
  "length (system_buttons_infos (snd (check_configurations_sort_and_init p h s)))
     = length (system_buttons_infos s)"
  by (cases "check_and_sort p (system_buttons_infos s) [0..<NUM_OF_BUTTONS p]
        (replicate (NUM_OF_BUTTONS p) zero_info)")
    (simp_all add: check_configurations_sort_and_init_def copy_and_create_timers_length)

lemma check_configurations_calls:
  "c \<in> set (calls (snd (check_configurations_sort_and_init p h s)))
   \<Longrightarrow> c \<in> set (calls s) \<or> (\<exists>n t. c = Call_xTimerCreate n t)"
  by (cases "check_and_sort p (system_buttons_infos s) [0..<NUM_OF_BUTTONS p]
        (replicate (NUM_OF_BUTTONS p) zero_info)")
    (simp_all add: check_configurations_sort_and_init_def copy_and_create_timers_calls)

lemma init_BSP_results:
  assumes "\<not> button_module_was_initialized s"
    and "init_BSP_button_module p h s = (r, s')"
  shows "(r = BSP_BUTTON_INVALID_BUTTONS_CONFIG_ERR
            \<and> check_configurations_sort_and_init p h s = (False, s'))
       \<or> (\<exists>s1. check_configurations_sort_and_init p h s = (True, s1)
            \<and> (r = BSP_BUTTON_INIT_ERR
                  \<and> s' = s1\<lparr>calls := calls s1 @ [Call_gpio_install_isr_service]\<rparr>
                \<or> r = BSP_BUTTON_OK
                  \<and> s' = s1\<lparr>calls := calls s1 @ [Call_gpio_install_isr_service],
                          button_module_was_initialized := True\<rparr>))"
proof (cases "check_configurations_sort_and_init p h s")
  case (Pair ok s1)
  with assms show ?thesis
    by (cases ok) (auto simp: init_BSP_button_module_def Let_def split: if_splits)
qed

subsection \<open>The first call of init_BSP_button_module\<close>

lemma valid_button_config_iff:
  "valid_button_config p c \<longleftrightarrow>
     BUTTON_ID c < NUM_OF_BUTTONS p \<and> GPIO_IS_VALID_GPIO p (BUTTON_GPIO_ID c)
     \<and> (BUTTON_GPIO_PULL_MODE c = GPIO_PULLUP_ONLY \<or> BUTTON_GPIO_PULL_MODE c = GPIO_PULLDOWN_ONLY
        \<or> BUTTON_GPIO_PULL_MODE c = GPIO_PULLUP_PULLDOWN \<or> BUTTON_GPIO_PULL_MODE c = GPIO_FLOATING)"
  by (simp add: valid_button_config_def valid_button_info_def static_info_def check_button_ID_iff)

text \<open>
  What the first call does, at program start, on a table of at most \<open>NUM_OF_BUTTONS\<close>
  lines. A line whose identifier is not below \<open>NUM_OF_BUTTONS\<close>, whose pin is not a GPIO
  or whose pull mode is none of the four makes the call return
  \<open>BSP_BUTTON_INVALID_BUTTONS_CONFIG_ERR\<close> with the module state untouched. Whenever the
  call returns that error the only calls made are creations of timers; whenever it does
  not return \<open>BSP_BUTTON_OK\<close> the module flag stays unset; no button is registered. When it
  returns \<open>BSP_BUTTON_OK\<close> the declared identifiers are pairwise distinct, every line
  passed the three checks and sits, with its timer, at the position of its identifier.
  None of this is said of a later call: the second loop writes the table before it can
  fail, see the next subsection.
\<close>

lemma first_init_BSP_button_module:
  assumes len: "length (BUTTONS_CONFIGURATIONS p) \<le> NUM_OF_BUTTONS p"
    and init: "init_BSP_button_module p h (initial_state p) = (r, s')"
  shows "((\<exists>c\<in>set (BUTTONS_CONFIGURATIONS p).
             \<not> (BUTTON_ID c < NUM_OF_BUTTONS p \<and> GPIO_IS_VALID_GPIO p (BUTTON_GPIO_ID c)
                \<and> (BUTTON_GPIO_PULL_MODE c = GPIO_PULLUP_ONLY
                   \<or> BUTTON_GPIO_PULL_MODE c = GPIO_PULLDOWN_ONLY
                   \<or> BUTTON_GPIO_PULL_MODE c = GPIO_PULLUP_PULLDOWN
                   \<or> BUTTON_GPIO_PULL_MODE c = GPIO_FLOATING))) \<longrightarrow>
            r = BSP_BUTTON_INVALID_BUTTONS_CONFIG_ERR \<and> s' = initial_state p)
       \<and> (r = BSP_BUTTON_INVALID_BUTTONS_CONFIG_ERR \<longrightarrow>
            (\<forall>c\<in>set (calls s'). \<exists>n t. c = Call_xTimerCreate n t))
       \<and> (r \<noteq> BSP_BUTTON_OK \<longrightarrow> \<not> button_module_was_initialized s')
       \<and> (\<forall>b\<in>set (system_buttons_infos s'). \<not> was_initialized b)
       \<and> (r = BSP_BUTTON_OK \<longrightarrow>
            button_module_was_initialized s'
          \<and> distinct (map BUTTON_ID (BUTTONS_CONFIGURATIONS p))
          \<and> (\<forall>c\<in>set (BUTTONS_CONFIGURATIONS p).
               (BUTTON_ID c < NUM_OF_BUTTONS p \<and> GPIO_IS_VALID_GPIO p (BUTTON_GPIO_ID c)
                \<and> (BUTTON_GPIO_PULL_MODE c = GPIO_PULLUP_ONLY
                   \<or> BUTTON_GPIO_PULL_MODE c = GPIO_PULLDOWN_ONLY
                   \<or> BUTTON_GPIO_PULL_MODE c = GPIO_PULLUP_PULLDOWN
                   \<or> BUTTON_GPIO_PULL_MODE c = GPIO_FLOATING))
               \<and> system_buttons_infos s' ! BUTTON_ID c
                   = (static_info p c)\<lparr>debounce := Some (debounce_timer p c)\<rparr>)
          \<and> (\<forall>i<NUM_OF_BUTTONS p. ID (system_buttons_infos s' ! i) = i))"
proof -
  let ?s0 = "initial_state p"
  let ?chk = "check_configurations_sort_and_init p h ?s0"
  have s0: "\<not> button_module_was_initialized ?s0" "calls ?s0 = []"
    by (simp_all add: initial_state_def)
  note res = init_BSP_results [OF s0(1) init]
  have flag1: "\<not> button_module_was_initialized (snd ?chk)"
    using s0(1) by (simp add: check_configurations_flag)
  have calls1: "\<forall>c\<in>set (calls (snd ?chk)). \<exists>n t. c = Call_xTimerCreate n t"
    using check_configurations_calls [of _ p h ?s0] s0(2) by auto
  note unreg1 = check_configurations_unregistered [OF len, of h]
  have infos': "system_buttons_infos s' = system_buttons_infos (snd ?chk)"
    using res by auto
  have bad: "r = BSP_BUTTON_INVALID_BUTTONS_CONFIG_ERR \<and> s' = ?s0"
    if "\<exists>c\<in>set (BUTTONS_CONFIGURATIONS p). \<not> valid_button_config p c"
  proof -
    from that invalid_line_rejected [OF len] have "?chk = (False, ?s0)" by blast
    with res show ?thesis by auto
  qed
  have only_timers: "\<forall>c\<in>set (calls s'). \<exists>n t. c = Call_xTimerCreate n t"
    if "r = BSP_BUTTON_INVALID_BUTTONS_CONFIG_ERR"
    using that res calls1 by auto
  have not_ok: "\<not> button_module_was_initialized s'" if "r \<noteq> BSP_BUTTON_OK"
    using that res flag1 by auto
  have unreg: "\<forall>b\<in>set (system_buttons_infos s'). \<not> was_initialized b"
    using unreg1 by (simp only: infos')
  have good: "button_module_was_initialized s'
          \<and> distinct (map BUTTON_ID (BUTTONS_CONFIGURATIONS p))
          \<and> (\<forall>c\<in>set (BUTTONS_CONFIGURATIONS p). valid_button_config p c
               \<and> system_buttons_infos s' ! BUTTON_ID c
                   = (static_info p c)\<lparr>debounce := Some (debounce_timer p c)\<rparr>)
          \<and> (\<forall>i<NUM_OF_BUTTONS p. ID (system_buttons_infos s' ! i) = i)"
    if "r = BSP_BUTTON_OK"
  proof -
    from that res obtain s1 where s1: "?chk = (True, s1)"
      "s' = s1\<lparr>calls := calls s1 @ [Call_gpio_install_isr_service],
               button_module_was_initialized := True\<rparr>"
      by auto
    from declared_table_accepted [OF len s1(1)] show ?thesis
      by (simp add: s1(2))
  qed
  have "((\<exists>c\<in>set (BUTTONS_CONFIGURATIONS p). \<not> valid_button_config p c) \<longrightarrow>
            r = BSP_BUTTON_INVALID_BUTTONS_CONFIG_ERR \<and> s' = initial_state p)
       \<and> (r = BSP_BUTTON_INVALID_BUTTONS_CONFIG_ERR \<longrightarrow>
            (\<forall>c\<in>set (calls s'). \<exists>n t. c = Call_xTimerCreate n t))
       \<and> (r \<noteq> BSP_BUTTON_OK \<longrightarrow> \<not> button_module_was_initialized s')
       \<and> (\<forall>b\<in>set (system_buttons_infos s'). \<not> was_initialized b)
       \<and> (r = BSP_BUTTON_OK \<longrightarrow>
            button_module_was_initialized s'
          \<and> distinct (map BUTTON_ID (BUTTONS_CONFIGURATIONS p))
          \<and> (\<forall>c\<in>set (BUTTONS_CONFIGURATIONS p). valid_button_config p c
               \<and> system_buttons_infos s' ! BUTTON_ID c
                   = (static_info p c)\<lparr>debounce := Some (debounce_timer p c)\<rparr>)
          \<and> (\<forall>i<NUM_OF_BUTTONS p. ID (system_buttons_infos s' ! i) = i))"
    using bad only_timers not_ok unreg good by blast
  then show ?thesis unfolding valid_button_config_iff .
qed

subsection \<open>A second call after a failed one\<close>

text \<open>
  Claim C5. The claim asks of \<open>init_BSP_button_module\<close> that a failure leaves nothing
  behind and that a success leaves every descriptor at the position of its identifier.
  On the board with two buttons, whose table is valid and declares button B (pin 5)
  before button A (pin 4), the first call finds the timer service unable to allocate the
  timer of button A: it returns \<open>BSP_BUTTON_INVALID_BUTTONS_CONFIG_ERR\<close>; the flag is unset,
  but the second loop has already written the line of button A over position 0, and both
  elements of the table are now button A. The second call, with every collaborator
  answering well, validates that table and returns \<open>BSP_BUTTON_OK\<close>: position 1 holds the
  zero element, with identifier 0 and pin 0, and the descriptor of button B is lost.
\<close>

theorem init_BSP_button_module_retry_after_failed_timer:
  "map BUTTON_ID (BUTTONS_CONFIGURATIONS two_buttons) = [1, 0]
   \<and> map BUTTON_GPIO_ID (BUTTONS_CONFIGURATIONS two_buttons) = [5, 4]
   \<and> NUM_OF_BUTTONS two_buttons = 2
   \<and> map ID (system_buttons_infos (initial_state two_buttons)) = [1, 0]
   \<and> map GPIO (system_buttons_infos (initial_state two_buttons)) = [5, 4]
   \<and> fst (init_BSP_button_module two_buttons no_timer_for_button_A (initial_state two_buttons))
       = BSP_BUTTON_INVALID_BUTTONS_CONFIG_ERR
   \<and> \<not> button_module_was_initialized module_after_failed_init
   \<and> map ID (system_buttons_infos module_after_failed_init) = [0, 0]
   \<and> map GPIO (system_buttons_infos module_after_failed_init) = [4, 4]
   \<and> fst (init_BSP_button_module two_buttons level_high module_after_failed_init) = BSP_BUTTON_OK
   \<and> button_module_was_initialized module_after_retry
   \<and> map ID (system_buttons_infos module_after_retry) = [0, 0]
   \<and> map GPIO (system_buttons_infos module_after_retry) = [4, 0]
   \<and> map debounce (system_buttons_infos module_after_retry)
       = [Some (Timer ''BUTTON_A'' 5), Some (Timer ''BUTTON_B'' 5)]"
  by code_simp

subsection \<open>A button that was never registered\<close>

lemma unregistered_in_update:
  assumes "unregistered_in i infos" and "ID y = j"
    and "j = i \<Longrightarrow> \<not> was_initialized y \<and> num_of_presses y = 0"
  shows "unregistered_in i (infos[j := y])"
proof (cases "j < length infos")
  case True
  with assms show ?thesis
    by (auto simp: unregistered_in_def nth_list_update)
next
  case False
  then have "infos[j := y] = infos" by (intro list_update_beyond) simp
  with assms(1) show ?thesis by simp
qed

lemma init_button_infos:
  "system_buttons_infos (snd (init_button p h j s)) = system_buttons_infos s
   \<or> system_buttons_infos (snd (init_button p h j s))
       = (system_buttons_infos s)
           [j := (system_buttons_infos s ! j)
              \<lparr>was_initialized := True, debounce_timer_expired := True\<rparr>]"
  by (simp add: init_button_def Let_def)

lemma de_init_button_infos:
  "system_buttons_infos (snd (de_init_button p h j s)) = system_buttons_infos s"
  by (simp add: de_init_button_def Let_def)

lemma generic_button_CB_infos:
  "ID (system_buttons_infos s ! k) = k \<Longrightarrow>
   system_buttons_infos (generic_button_CB h k s) = system_buttons_infos s
   \<or> system_buttons_infos (generic_button_CB h k s)
       = (system_buttons_infos s)
           [k := (system_buttons_infos s ! k)
              \<lparr>debounce_timer_expired := False,
               state := gpio_get_level h (GPIO (system_buttons_infos s ! k)),
               num_of_presses := num_of_presses (system_buttons_infos s ! k) + 1\<rparr>]"
  by (simp add: generic_button_CB_def Let_def)

lemma timer_CB_infos:
  "system_buttons_infos (timer_CB p h t s) = system_buttons_infos s
   \<or> (\<exists>j. system_buttons_infos (timer_CB p h t s)
       = (system_buttons_infos s)
           [j := (system_buttons_infos s ! j)\<lparr>debounce_timer_expired := True\<rparr>])"
  by (auto simp: timer_CB_def Let_def)

lemma step_unregistered:
  assumes flag: "button_module_was_initialized s"
    and len: "length (system_buttons_infos s) = NUM_OF_BUTTONS p"
    and inv: "unregistered_in i (system_buttons_infos s)"
    and a: "leaves_unregistered p i a"
  shows "unregistered_in i (system_buttons_infos (step p a s))"
proof (cases a)
  case (Do_init_BSP_button_module h)
  with flag inv show ?thesis by (simp add: init_BSP_noop)
next
  case (Do_init_button h j)
  with a have "j \<noteq> i" by simp
  have keep: "unregistered_in i ((system_buttons_infos s)
           [j := (system_buttons_infos s ! j)
              \<lparr>was_initialized := True, debounce_timer_expired := True\<rparr>])"
  proof (cases "j < length (system_buttons_infos s)")
    case True
    with inv have "ID (system_buttons_infos s ! j) = j" by (simp add: unregistered_in_def)
    with inv \<open>j \<noteq> i\<close> show ?thesis by (intro unregistered_in_update) simp_all
  next
    case False
    then have "(system_buttons_infos s)
           [j := (system_buttons_infos s ! j)
              \<lparr>was_initialized := True, debounce_timer_expired := True\<rparr>]
        = system_buttons_infos s" by (intro list_update_beyond) simp
    with inv show ?thesis by simp
  qed
  from init_button_infos [of p h j s] inv keep Do_init_button show ?thesis by auto
next
  case (Do_de_init_button h j)
  with inv show ?thesis by (simp add: de_init_button_infos)
next
  case (Do_read_button_state j)
  with inv show ?thesis by simp
next
  case (Do_get_num_of_presses j)
  with inv show ?thesis by simp
next
  case (Do_generic_button_CB h k)
  with a len have k: "k < length (system_buttons_infos s)" "k \<noteq> i" by simp_all
  with inv have id: "ID (system_buttons_infos s ! k) = k" by (simp add: unregistered_in_def)
  have "unregistered_in i ((system_buttons_infos s)
           [k := (system_buttons_infos s ! k)
              \<lparr>debounce_timer_expired := False,
               state := gpio_get_level h (GPIO (system_buttons_infos s ! k)),
               num_of_presses := num_of_presses (system_buttons_infos s ! k) + 1\<rparr>])"
    using inv id k(2) by (intro unregistered_in_update) simp_all
  with generic_button_CB_infos [OF id, of h] inv Do_generic_button_CB show ?thesis by auto
next
  case (Do_timer_CB h t)
  have keep: "unregistered_in i ((system_buttons_infos s)
           [j := (system_buttons_infos s ! j)\<lparr>debounce_timer_expired := True\<rparr>])" for j
  proof (cases "j < length (system_buttons_infos s)")
    case True
    with inv have "ID (system_buttons_infos s ! j) = j" by (simp add: unregistered_in_def)
    with inv show ?thesis
      by (intro unregistered_in_update) (simp_all add: unregistered_in_def)
  next
    case False
    then have "(system_buttons_infos s)
           [j := (system_buttons_infos s ! j)\<lparr>debounce_timer_expired := True\<rparr>]
        = system_buttons_infos s" by (intro list_update_beyond) simp
    with inv show ?thesis by simp
  qed
  from timer_CB_infos [of p h t s] inv keep Do_timer_CB show ?thesis by auto
qed

lemma step_length:
  "button_module_was_initialized s \<Longrightarrow>
   length (system_buttons_infos (step p a s)) = length (system_buttons_infos s)"
proof (cases a)
  case (Do_init_button h j)
  assume "button_module_was_initialized s"
  from init_button_infos [of p h j s] Do_init_button show ?thesis by auto
next
  case (Do_generic_button_CB h k)
  then show ?thesis by (simp add: generic_button_CB_def Let_def)
next
  case (Do_timer_CB h t)
  with timer_CB_infos [of p h t s] show ?thesis by auto
qed (simp_all add: init_BSP_noop de_init_button_infos)

lemma run_unregistered:
  assumes "button_module_was_initialized s"
    and "length (system_buttons_infos s) = NUM_OF_BUTTONS p"
    and "unregistered_in i (system_buttons_infos s)"
    and "\<forall>a\<in>set as. leaves_unregistered p i a"
  shows "button_module_was_initialized (run p as s)
       \<and> unregistered_in i (system_buttons_infos (run p as s))"
  using assms
proof (induction as arbitrary: s)
  case Nil
  then show ?case by simp
next
  case (Cons a as)
  have "button_module_was_initialized (step p a s)"
    using Cons.prems(1) by (rule step_keeps_flag)
  moreover have "length (system_buttons_infos (step p a s)) = NUM_OF_BUTTONS p"
    using Cons.prems(1,2) by (simp add: step_length)
  moreover have "unregistered_in i (system_buttons_infos (step p a s))"
    using Cons.prems by (intro step_unregistered) simp_all
  moreover have "\<forall>a\<in>set as. leaves_unregistered p i a"
    using Cons.prems(4) by simp
  ultimately show ?case using Cons.IH by simp
qed

text \<open>
  Claim C8. The module was initialized at program start, \<open>i\<close> is an identifier of the
  enumeration, and in the history since then button \<open>i\<close> was never registered (so none
  of the edge interrupts is its own), whatever happened to the other buttons. Then
  \<open>get_num_of_presses\<close> returns \<open>BSP_BUTTON_OK\<close> and writes 0, and
  \<open>read_button_state\<close> returns \<open>BSP_BUTTON_WAS_NOT_INITIALIZED_ERR\<close> and leaves its
  output parameter as it was.
\<close>

theorem never_registered_button:
  assumes len: "length (BUTTONS_CONFIGURATIONS p) \<le> NUM_OF_BUTTONS p"
    and init: "init_BSP_button_module p h (initial_state p) = (BSP_BUTTON_OK, s1)"
    and valid: "check_button_ID p i"
    and history: "\<forall>a\<in>set as. leaves_unregistered p i a"
  shows "get_num_of_presses p i out_presses (run p as s1) = (BSP_BUTTON_OK, 0)
       \<and> read_button_state p i out_state (run p as s1)
           = (BSP_BUTTON_WAS_NOT_INITIALIZED_ERR, out_state)"
proof -
  have s0: "\<not> button_module_was_initialized (initial_state p)"
    by (simp add: initial_state_def)
  from init_BSP_results [OF s0 init] obtain s1' where
    chk: "check_configurations_sort_and_init p h (initial_state p) = (True, s1')"
    and s1: "s1 = s1'\<lparr>calls := calls s1' @ [Call_gpio_install_isr_service],
               button_module_was_initialized := True\<rparr>"
    by auto
  note table = declared_table_accepted [OF len chk]
  have flag: "button_module_was_initialized s1" by (simp add: s1)
  have length: "length (system_buttons_infos s1) = NUM_OF_BUTTONS p"
    using check_configurations_length [of p h "initial_state p"] chk initial_infos(1) [OF len]
    by (simp add: s1)
  have i: "i < NUM_OF_BUTTONS p" using valid by (simp add: check_button_ID_iff)
  with table obtain c where c: "c \<in> set (BUTTONS_CONFIGURATIONS p)" "BUTTON_ID c = i"
    by auto
  with table have "system_buttons_infos s1' ! i
      = (static_info p c)\<lparr>debounce := Some (debounce_timer p c)\<rparr>"
    by blast
  then have fresh: "\<not> was_initialized (system_buttons_infos s1 ! i)"
    "num_of_presses (system_buttons_infos s1 ! i) = 0"
    by (simp_all add: s1 static_info_def)
  have "\<forall>k<length (system_buttons_infos s1). ID (system_buttons_infos s1 ! k) = k"
    using table length by (simp add: s1)
  with fresh have "unregistered_in i (system_buttons_infos s1)"
    by (simp add: unregistered_in_def)
  from run_unregistered [OF flag length this history]
  have "button_module_was_initialized (run p as s1)"
    and "unregistered_in i (system_buttons_infos (run p as s1))"
    by simp_all
  with valid show ?thesis
    by (simp add: get_num_of_presses_def read_button_state_def unregistered_in_def)
qed

theorem never_registered_button_witness:
  "length (BUTTONS_CONFIGURATIONS two_buttons) \<le> NUM_OF_BUTTONS two_buttons
   \<and> init_BSP_button_module two_buttons level_high (initial_state two_buttons)
       = (BSP_BUTTON_OK, module_ready)
   \<and> check_button_ID two_buttons 1
   \<and> leaves_unregistered two_buttons 1 (Do_init_button level_high 0)
   \<and> leaves_unregistered two_buttons 1 (Do_generic_button_CB level_high 0)
   \<and> leaves_unregistered two_buttons 1 (Do_timer_CB level_low (Timer ''BUTTON_A'' 5))
   \<and> leaves_unregistered two_buttons 1 (Do_de_init_button level_high 1)
   \<and> get_num_of_presses two_buttons 1 7
        (run two_buttons [Do_init_button level_high 0, Do_generic_button_CB level_high 0,
          Do_timer_CB level_low (Timer ''BUTTON_A'' 5), Do_de_init_button level_high 1]
          module_ready) = (BSP_BUTTON_OK, 0)
   \<and> read_button_state two_buttons 1 7
        (run two_buttons [Do_init_button level_high 0, Do_generic_button_CB level_high 0,
          Do_timer_CB level_low (Timer ''BUTTON_A'' 5), Do_de_init_button level_high 1]
          module_ready) = (BSP_BUTTON_WAS_NOT_INITIALIZED_ERR, 7)"
proof -
  have a: "length (BUTTONS_CONFIGURATIONS two_buttons) \<le> NUM_OF_BUTTONS two_buttons"
    by code_simp
  have "fst (init_BSP_button_module two_buttons level_high (initial_state two_buttons))
          = BSP_BUTTON_OK" by code_simp
  then have b: "init_BSP_button_module two_buttons level_high (initial_state two_buttons)
      = (BSP_BUTTON_OK, module_ready)"
    by (simp add: module_ready_def prod_eq_iff)
  have c: "check_button_ID two_buttons 1" by code_simp
  have d: "\<forall>a\<in>set [Do_init_button level_high 0, Do_generic_button_CB level_high 0,
          Do_timer_CB level_low (Timer ''BUTTON_A'' 5), Do_de_init_button level_high 1].
        leaves_unregistered two_buttons 1 a"
    by (simp add: NUM_OF_BUTTONS_def two_buttons_def)
  have d': "leaves_unregistered two_buttons 1 (Do_init_button level_high 0)
      \<and> leaves_unregistered two_buttons 1 (Do_generic_button_CB level_high 0)
      \<and> leaves_unregistered two_buttons 1 (Do_timer_CB level_low (Timer ''BUTTON_A'' 5))
      \<and> leaves_unregistered two_buttons 1 (Do_de_init_button level_high 1)"
    using d by simp
  show ?thesis
    using a b c d' never_registered_button [OF a b c d, of 7 7] by blast
qed

subsection \<open>De-registration\<close>

text \<open>
  Claim C1. On the board with two buttons, with a GPIO driver that never fails: the
  module is initialized, button A is registered, button A is de-registered, each with
  \<open>BSP_BUTTON_OK\<close>; \<open>init_button\<close> on button A then returns
  \<open>BSP_BUTTON_WAS_INITIALIZED_ERR\<close>, because \<open>de_init_button\<close> leaves the flag
  \<open>was_initialized\<close> set.
\<close>

theorem init_button_after_de_init_button:
  "fst (init_BSP_button_module two_buttons level_high (initial_state two_buttons))
     = BSP_BUTTON_OK
   \<and> fst (init_button two_buttons level_high 0 module_ready) = BSP_BUTTON_OK
   \<and> fst (de_init_button two_buttons level_high 0 button_A_registered) = BSP_BUTTON_OK
   \<and> fst (init_button two_buttons level_high 0
        (snd (de_init_button two_buttons level_high 0 button_A_registered)))
     = BSP_BUTTON_WAS_INITIALIZED_ERR"
  by code_simp

text \<open>
  Claim C2, as stated, fails. Button A was registered, pressed and released: it is
  registered, its stored level is \<open>BUTTON_IS_PRESSED\<close> and its flag
  \<open>debounce_timer_expired\<close> is set, where the three fields were unset, \<open>BUTTON_IS_NOT_PRESSED\<close>
  and unset after \<open>init_BSP_button_module\<close>. \<open>de_init_button\<close> returns \<open>BSP_BUTTON_OK\<close>
  and the three fields are what they were before the call.
\<close>

theorem de_init_button_resets_no_field:
  "fst (de_init_button two_buttons level_high 0 button_A_released) = BSP_BUTTON_OK
   \<and> was_initialized
        (system_buttons_infos (snd (de_init_button two_buttons level_high 0 button_A_released)) ! 0)
   \<and> state
        (system_buttons_infos (snd (de_init_button two_buttons level_high 0 button_A_released)) ! 0)
       = BUTTON_IS_PRESSED two_buttons
   \<and> debounce_timer_expired
        (system_buttons_infos (snd (de_init_button two_buttons level_high 0 button_A_released)) ! 0)
   \<and> \<not> was_initialized (system_buttons_infos module_ready ! 0)
   \<and> state (system_buttons_infos module_ready ! 0) = BUTTON_IS_NOT_PRESSED two_buttons
   \<and> \<not> debounce_timer_expired (system_buttons_infos module_ready ! 0)
   \<and> BUTTON_IS_PRESSED two_buttons \<noteq> BUTTON_IS_NOT_PRESSED two_buttons"
  by code_simp

text \<open>
  Claim C2, amended. A call of \<open>de_init_button\<close> that returns \<open>BSP_BUTTON_OK\<close> resets the
  pin of the button and disables its interrupt through the GPIO driver, and that is all
  it does: the module flag, every other button, and of the button itself the descriptor
  (identifier, pin, pull mode, interrupt type, timer handle), the stored level, the flag
  \<open>debounce_timer_expired\<close> and the press counter are what they were before the call.
\<close>

theorem de_init_button_only_calls_the_driver:
  assumes "de_init_button p h i s = (BSP_BUTTON_OK, s')"
  shows "calls s' = calls s @
           [Call_gpio_reset_pin (GPIO (system_buttons_infos s ! i)),
            Call_gpio_set_intr_type (GPIO (system_buttons_infos s ! i)) GPIO_INTR_DISABLE]
       \<and> button_module_was_initialized s' = button_module_was_initialized s
       \<and> length (system_buttons_infos s') = length (system_buttons_infos s)
       \<and> (\<forall>k. k \<noteq> i \<longrightarrow> system_buttons_infos s' ! k = system_buttons_infos s ! k)
       \<and> ID (system_buttons_infos s' ! i) = ID (system_buttons_infos s ! i)
       \<and> GPIO (system_buttons_infos s' ! i) = GPIO (system_buttons_infos s ! i)
       \<and> pull_mode (system_buttons_infos s' ! i) = pull_mode (system_buttons_infos s ! i)
       \<and> interruption_type (system_buttons_infos s' ! i)
           = interruption_type (system_buttons_infos s ! i)
       \<and> debounce (system_buttons_infos s' ! i) = debounce (system_buttons_infos s ! i)
       \<and> state (system_buttons_infos s' ! i) = state (system_buttons_infos s ! i)
       \<and> debounce_timer_expired (system_buttons_infos s' ! i)
           = debounce_timer_expired (system_buttons_infos s ! i)
       \<and> num_of_presses (system_buttons_infos s' ! i)
           = num_of_presses (system_buttons_infos s ! i)"
proof -
  have infos: "system_buttons_infos s' = system_buttons_infos s"
    using de_init_button_infos [of p h i s] assms by simp
  have flag: "button_module_was_initialized s' = button_module_was_initialized s"
    using de_init_button_flag [of p h i s] assms by simp
  have "calls s' = calls s @
           [Call_gpio_reset_pin (GPIO (system_buttons_infos s ! i)),
            Call_gpio_set_intr_type (GPIO (system_buttons_infos s ! i)) GPIO_INTR_DISABLE]"
    using assms by (auto simp: de_init_button_def Let_def split: if_splits)
  with infos flag show ?thesis by simp
qed

theorem de_init_button_only_calls_the_driver_witness:
  "de_init_button two_buttons level_high 0 button_A_released
     = (BSP_BUTTON_OK, snd (de_init_button two_buttons level_high 0 button_A_released))
   \<and> calls (snd (de_init_button two_buttons level_high 0 button_A_released))
       = calls button_A_released @ [Call_gpio_reset_pin 4, Call_gpio_set_intr_type 4 0]
   \<and> system_buttons_infos (snd (de_init_button two_buttons level_high 0 button_A_released)) ! 1
       = system_buttons_infos button_A_released ! 1
   \<and> state (system_buttons_infos
        (snd (de_init_button two_buttons level_high 0 button_A_released)) ! 0)
       = state (system_buttons_infos button_A_released ! 0)
   \<and> debounce_timer_expired (system_buttons_infos
        (snd (de_init_button two_buttons level_high 0 button_A_released)) ! 0)
       = debounce_timer_expired (system_buttons_infos button_A_released ! 0)
   \<and> num_of_presses (system_buttons_infos
        (snd (de_init_button two_buttons level_high 0 button_A_released)) ! 0)
       = num_of_presses (system_buttons_infos button_A_released ! 0)"
proof -
  have "fst (de_init_button two_buttons level_high 0 button_A_released) = BSP_BUTTON_OK"
    by code_simp
  then have a: "de_init_button two_buttons level_high 0 button_A_released
      = (BSP_BUTTON_OK, snd (de_init_button two_buttons level_high 0 button_A_released))"
    by (simp add: prod_eq_iff)
  have b: "GPIO (system_buttons_infos button_A_released ! 0) = 4" by code_simp
  have c: "(1::nat) \<noteq> 0" by simp
  note t = de_init_button_only_calls_the_driver [OF a]
  have t1: "calls (snd (de_init_button two_buttons level_high 0 button_A_released))
       = calls button_A_released @ [Call_gpio_reset_pin 4, Call_gpio_set_intr_type 4 0]"
    using t [THEN conjunct1] by (simp only: b GPIO_INTR_DISABLE_def)
  have t2: "system_buttons_infos
        (snd (de_init_button two_buttons level_high 0 button_A_released)) ! 1
       = system_buttons_infos button_A_released ! 1"
    using t c by blast
  show ?thesis
    using a t1 t2 t by blast
qed

end
